theory Spec2Isabelle
  imports Complex_Main "HOL-Library.AList"
begin

section \<open>Shared types of the recording SDK\<close>

text \<open>
  The enums of \<^verbatim>\<open>types/RecordingOptions.ts\<close> and \<^verbatim>\<open>types/Events.ts\<close>. The TypeScript
  enum \<^verbatim>\<open>RecordingMode\<close> is string-valued and \<^verbatim>\<open>EndpointManager.connectEndpoints\<close>
  has a \<^verbatim>\<open>default:\<close> branch for a value outside the enum, so the model carries such a
  value as \<open>UNRECOGNIZED\<close> with its string.
\<close>

datatype RecordingState = CREATED | READY | RECORDING | PAUSED | STOPPED | ERROR

datatype PauseType = BOTH | VIDEO_ONLY_PAUSE | AUDIO_ONLY_PAUSE

datatype RecordingMode = AUDIO_VIDEO | AUDIO_ONLY | VIDEO_ONLY | UNRECOGNIZED string

datatype MediaProfile =
  WEBM | WEBM_VIDEO_ONLY | WEBM_AUDIO_ONLY | MP4 | MP4_VIDEO_ONLY | MP4_AUDIO_ONLY

datatype RecordingQuality = LOW | MEDIUM | HIGH | ULTRA

datatype ShareType = SCREEN | WINDOW | BROWSER | APPLICATION | UNKNOWN

text \<open>
  Errors are values. An error keeps the class that was thrown and its \<^verbatim>\<open>ErrorCode\<close>;
  \<open>ServerFailure\<close> stands for whatever a rejected call to the media server throws.
\<close>

datatype ErrorCode =
  SESSION_INVALID_STATE | SESSION_NOT_READY | SESSION_CREATION_FAILED
  | RECORDING_START_ERROR | RECORDING_STOP_ERROR | RESOURCE_RELEASE_ERROR
  | ENDPOINT_CREATION_FAILED | MEDIA_PIPELINE_ERROR | MEDIA_CONNECTION_ERROR
  | PIPELINE_NOT_READY | ELEMENT_CREATION_FAILED | PIPELINE_RELEASE_FAILED
  | WEBRTC_OFFER_ERROR | WEBRTC_ICE_ERROR
  | CONNECTION_IN_PROGRESS | CONNECTION_FAILED | DISCONNECT_FAILED
  | INVALID_PARAMETER | CONFIG_ERROR | PIPELINE_CREATION_FAILED | SESSION_NOT_FOUND

datatype error =
  SessionError ErrorCode
  | MediaError ErrorCode
  | WebRTCError ErrorCode
  | ConnectionError ErrorCode
  | ConfigError ErrorCode
  | ServerFailure

section \<open>ConfigManager: normalising session options\<close>

text \<open>
  \<^verbatim>\<open>RecordingSessionOptions\<close> as the caller supplies it: every field is optional
  (\<open>None\<close> is JavaScript's \<^verbatim>\<open>undefined\<close>). Numbers are integers (kbps, pixels, frames
  per second).
\<close>

record RecordingSessionOptions =
  sessionId_opt :: "string option"
  mediaProfile_opt :: "MediaProfile option"
  quality_opt :: "RecordingQuality option"
  maxBitrate_opt :: "int option"
  minBitrate_opt :: "int option"
  recordingMode_opt :: "RecordingMode option"
  hasAudio_opt :: "bool option"
  width_opt :: "int option"
  height_opt :: "int option"
  frameRate_opt :: "int option"
  shareType_opt :: "ShareType option"
  filePath_opt :: "string option"
  insertBlankScreenOnPause_opt :: "bool option"
  blankScreenColor_opt :: "string option"

text \<open>
  \<^verbatim>\<open>Required<RecordingSessionOptions>\<close>, the normalised options. \<open>mediaProfile\<close> stays
  optional: for a mode outside the enum the table \<^verbatim>\<open>RECORDING_MODE_PROFILES\<close> has no
  entry and the field is \<^verbatim>\<open>undefined\<close> at run time.
\<close>

record SessionOptions =
  sessionId :: string
  mediaProfile :: "MediaProfile option"
  quality :: RecordingQuality
  maxBitrate :: int
  minBitrate :: int
  recordingMode :: RecordingMode
  hasAudio :: bool
  width :: int
  height :: int
  frameRate :: int
  shareType :: ShareType
  filePath :: string
  insertBlankScreenOnPause :: bool
  blankScreenColor :: string

record QualityParams =
  q_maxBitrate :: int
  q_minBitrate :: int
  q_frameRate :: int
  q_qualityLevel :: int

text \<open>\<^verbatim>\<open>constants/DefaultConfigs.ts\<close>\<close>

fun DEFAULT_QUALITY_SETTINGS :: "RecordingQuality \<Rightarrow> QualityParams" where
  "DEFAULT_QUALITY_SETTINGS LOW =
     \<lparr>q_maxBitrate = 1000, q_minBitrate = 200, q_frameRate = 15, q_qualityLevel = 7\<rparr>"
| "DEFAULT_QUALITY_SETTINGS MEDIUM =
     \<lparr>q_maxBitrate = 2000, q_minBitrate = 500, q_frameRate = 24, q_qualityLevel = 5\<rparr>"
| "DEFAULT_QUALITY_SETTINGS HIGH =
     \<lparr>q_maxBitrate = 4000, q_minBitrate = 1000, q_frameRate = 30, q_qualityLevel = 3\<rparr>"
| "DEFAULT_QUALITY_SETTINGS ULTRA =
     \<lparr>q_maxBitrate = 8000, q_minBitrate = 2000, q_frameRate = 60, q_qualityLevel = 1\<rparr>"

definition DEFAULT_mediaProfile :: MediaProfile where
  "DEFAULT_mediaProfile = WEBM"

definition DEFAULT_quality :: RecordingQuality where
  "DEFAULT_quality = HIGH"

definition DEFAULT_recordingMode :: RecordingMode where
  "DEFAULT_recordingMode = AUDIO_VIDEO"

definition DEFAULT_hasAudio :: bool where
  "DEFAULT_hasAudio = True"

definition DEFAULT_insertBlankScreenOnPause :: bool where
  "DEFAULT_insertBlankScreenOnPause = True"

definition DEFAULT_blankScreenColor :: string where
  "DEFAULT_blankScreenColor = ''black''"

fun MEDIA_PROFILE_EXTENSIONS :: "MediaProfile \<Rightarrow> string" where
  "MEDIA_PROFILE_EXTENSIONS WEBM = ''.webm''"
| "MEDIA_PROFILE_EXTENSIONS WEBM_VIDEO_ONLY = ''.webm''"
| "MEDIA_PROFILE_EXTENSIONS WEBM_AUDIO_ONLY = ''.webm''"
| "MEDIA_PROFILE_EXTENSIONS MP4 = ''.mp4''"
| "MEDIA_PROFILE_EXTENSIONS MP4_VIDEO_ONLY = ''.mp4''"
| "MEDIA_PROFILE_EXTENSIONS MP4_AUDIO_ONLY = ''.mp4''"

fun RECORDING_MODE_PROFILES :: "RecordingMode \<Rightarrow> MediaProfile option" where
  "RECORDING_MODE_PROFILES AUDIO_VIDEO = Some WEBM"
| "RECORDING_MODE_PROFILES AUDIO_ONLY = Some WEBM_AUDIO_ONLY"
| "RECORDING_MODE_PROFILES VIDEO_ONLY = Some WEBM_VIDEO_ONLY"
| "RECORDING_MODE_PROFILES (UNRECOGNIZED v) = None"

text \<open>
  \<^verbatim>\<open>a || b\<close> takes \<open>b\<close> when \<open>a\<close> is falsy (\<^verbatim>\<open>undefined\<close> or the empty string);
  \<^verbatim>\<open>a ?? b\<close> takes \<open>b\<close> only when \<open>a\<close> is \<^verbatim>\<open>undefined\<close>.
\<close>

definition or_string :: "string option \<Rightarrow> string \<Rightarrow> string" where
  "or_string a b = (case a of None \<Rightarrow> b | Some v \<Rightarrow> (if v = [] then b else v))"

definition or_mode :: "RecordingMode option \<Rightarrow> RecordingMode \<Rightarrow> RecordingMode" where
  "or_mode a b =
     (case a of None \<Rightarrow> b
      | Some (UNRECOGNIZED v) \<Rightarrow> (if v = [] then b else UNRECOGNIZED v)
      | Some m \<Rightarrow> m)"

definition nullish :: "'a option \<Rightarrow> 'a \<Rightarrow> 'a" where
  "nullish a b = (case a of None \<Rightarrow> b | Some v \<Rightarrow> v)"

text \<open>
  \<^verbatim>\<open>ConfigManager.validateSessionOptions(options, tempDir)\<close>. The random \<^verbatim>\<open>uuidv4()\<close>
  and Node's \<^verbatim>\<open>path.join\<close> are parameters. The calls to the logger and
  \<^verbatim>\<open>validateMediaProfileForMode\<close> (which only logs) leave no trace in the result and are
  not modelled. The only \<^verbatim>\<open>throw\<close> is the check of the video dimensions.
\<close>

definition validateSessionOptions ::
  "(string \<Rightarrow> string \<Rightarrow> string) \<Rightarrow> string \<Rightarrow> RecordingSessionOptions \<Rightarrow> string
     \<Rightarrow> error + SessionOptions" where
  "validateSessionOptions path_join uuidv4 options tempDir =
    (let sessionId0 = or_string (sessionId_opt options) uuidv4;
         recordingMode0 = or_mode (recordingMode_opt options) DEFAULT_recordingMode;
         mediaProfile0 =
           (case mediaProfile_opt options of
              None \<Rightarrow> RECORDING_MODE_PROFILES recordingMode0
            | Some p \<Rightarrow> Some p);
         fileExtension =
           (case mediaProfile0 of None \<Rightarrow> ''undefined'' | Some p \<Rightarrow> MEDIA_PROFILE_EXTENSIONS p);
         filePath0 =
           or_string (filePath_opt options)
             (path_join tempDir (''recording_'' @ sessionId0 @ fileExtension));
         quality0 = nullish (quality_opt options) DEFAULT_quality;
         qualitySettings = DEFAULT_QUALITY_SETTINGS quality0;
         maxBitrate0 = nullish (maxBitrate_opt options) (q_maxBitrate qualitySettings);
         minBitrate0 = nullish (minBitrate_opt options) (q_minBitrate qualitySettings);
         hasAudio0 =
           nullish (hasAudio_opt options) (recordingMode0 \<noteq> VIDEO_ONLY \<and> DEFAULT_hasAudio);
         width0 = nullish (width_opt options) 1920;
         height0 = nullish (height_opt options) 1080;
         hasAudio1 = (if recordingMode0 = AUDIO_ONLY \<and> \<not> hasAudio0 then True else hasAudio0)
     in if recordingMode0 = VIDEO_ONLY \<and> (width0 \<le> 0 \<or> height0 \<le> 0)
        then Inl (ConfigError INVALID_PARAMETER)
        else
          (let minBitrate1 =
                 (if minBitrate0 \<le> 0 then q_minBitrate qualitySettings else minBitrate0);
               maxBitrate1 =
                 (if maxBitrate0 \<le> 0 then q_maxBitrate qualitySettings else maxBitrate0);
               swap = (minBitrate1 > maxBitrate1)
           in Inr \<lparr>sessionId = sessionId0,
                   mediaProfile = mediaProfile0,
                   quality = quality0,
                   maxBitrate = (if swap then minBitrate1 else maxBitrate1),
                   minBitrate = (if swap then maxBitrate1 else minBitrate1),
                   recordingMode = recordingMode0,
                   hasAudio = hasAudio1,
                   width = width0,
                   height = height0,
                   frameRate = nullish (frameRate_opt options) (q_frameRate qualitySettings),
                   shareType = nullish (shareType_opt options) UNKNOWN,
                   filePath = filePath0,
                   insertBlankScreenOnPause =
                     nullish (insertBlankScreenOnPause_opt options)
                       DEFAULT_insertBlankScreenOnPause,
                   blankScreenColor =
                     nullish (blankScreenColor_opt options) DEFAULT_blankScreenColor\<rparr>))"

text \<open>\<^verbatim>\<open>createSession(options = {})\<close>: the options object with no field set.\<close>

definition empty_options :: RecordingSessionOptions where
  "empty_options =
     \<lparr>sessionId_opt = None, mediaProfile_opt = None, quality_opt = None,
      maxBitrate_opt = None, minBitrate_opt = None, recordingMode_opt = None,
      hasAudio_opt = None, width_opt = None, height_opt = None, frameRate_opt = None,
      shareType_opt = None, filePath_opt = None, insertBlankScreenOnPause_opt = None,
      blankScreenColor_opt = None\<rparr>"

definition posix_join :: "string \<Rightarrow> string \<Rightarrow> string" where
  "posix_join dir name = dir @ ''/'' @ name"


section \<open>The media server as seen by the SDK\<close>

text \<open>
  Every \<^verbatim>\<open>await\<close> on a Kurento object is a request to the media server that either
  resolves or rejects. The model keeps the list of requests issued so far, in order, and
  takes the server's answers as a parameter: \<open>rejects i c\<close> says that request \<open>c\<close>,
  issued as the \<open>i\<close>-th request, is rejected. An element created by the server is named
  by the position of the request that created it.

  Of the logger, the calls at level \<^verbatim>\<open>warn\<close> and \<^verbatim>\<open>error\<close> are modelled (with the fixed
  part of their message); the \<^verbatim>\<open>debug\<close> and \<^verbatim>\<open>info\<close> calls are left out.
\<close>

type_synonym element = nat

datatype MediaType = AUDIO | VIDEO

record IceCandidate =
  candidate :: string
  sdpMid :: "string option"
  sdpMLineIndex :: "int option"

datatype kms_call =
  CreateMediaPipeline
  | CreateWebRtcEndpoint bool bool
  | CreateRecorderEndpoint string "MediaProfile option"
  | CreatePassThrough
  | Connect element element "MediaType option"
  | Disconnect element element "MediaType option"
  | ProcessOffer element string
  | GatherCandidates element
  | AddIceCandidate element IceCandidate
  | SetMinVideoSendBandwidth element int
  | SetMaxVideoSendBandwidth element int
  | Record element
  | Stop element
  | Release element

type_synonym faults = "nat \<Rightarrow> kms_call \<Rightarrow> bool"

datatype LogLevel = LOG_WARN | LOG_ERROR

record world =
  kms :: "kms_call list"
  logged :: "(LogLevel \<times> string) list"

definition request :: "faults \<Rightarrow> kms_call \<Rightarrow> world \<Rightarrow> world \<times> bool" where
  "request rejects c w = (w\<lparr>kms := kms w @ [c]\<rparr>, \<not> rejects (length (kms w)) c)"

definition warn :: "string \<Rightarrow> world \<Rightarrow> world" where
  "warn msg w = w\<lparr>logged := logged w @ [(LOG_WARN, msg)]\<rparr>"

definition log_error :: "string \<Rightarrow> world \<Rightarrow> world" where
  "log_error msg w = w\<lparr>logged := logged w @ [(LOG_ERROR, msg)]\<rparr>"

section \<open>MediaPipeline\<close>

record MediaPipeline =
  pipeline :: "element option"
  elements :: "(string \<times> element) list"
  isReleased :: bool

definition ensurePipeline :: "MediaPipeline \<Rightarrow> bool" where
  "ensurePipeline p = (pipeline p \<noteq> None \<and> \<not> isReleased p)"

definition MediaPipeline_initialize ::
  "faults \<Rightarrow> world \<times> MediaPipeline \<Rightarrow> (world \<times> MediaPipeline) \<times> (error + unit)" where
  "MediaPipeline_initialize rejects = (\<lambda>(w, p).
     if pipeline p \<noteq> None then ((w, p), Inr ())
     else
       (let (w1, ok) = request rejects CreateMediaPipeline w
        in if ok then ((w1, p\<lparr>pipeline := Some (length (kms w))\<rparr>), Inr ())
           else ((log_error ''Error creating media pipeline'' w1, p),
                 Inl (MediaError PIPELINE_CREATION_FAILED))))"

text \<open>
  \<^verbatim>\<open>createWebRtcEndpoint(options, id)\<close> and \<^verbatim>\<open>createRecorderEndpoint(options, id)\<close>:
  \<^verbatim>\<open>ensurePipeline()\<close> throws before the \<^verbatim>\<open>try\<close>; a rejected creation is wrapped.
\<close>

definition createElementCall ::
  "faults \<Rightarrow> kms_call \<Rightarrow> string \<Rightarrow> string \<Rightarrow> world \<times> MediaPipeline
     \<Rightarrow> (world \<times> MediaPipeline) \<times> (error + element)" where
  "createElementCall rejects c ident msg = (\<lambda>(w, p).
     if \<not> ensurePipeline p
     then ((log_error ''Attempt to use released or non-existent pipeline'' w, p),
           Inl (MediaError MEDIA_PIPELINE_ERROR))
     else
       (let (w1, ok) = request rejects c w
        in if ok
           then ((w1, if ident \<noteq> [] then p\<lparr>elements := AList.update ident (length (kms w)) (elements p)\<rparr> else p),
                 Inr (length (kms w)))
           else ((log_error msg w1, p), Inl (MediaError ENDPOINT_CREATION_FAILED))))"

definition createWebRtcEndpoint ::
  "faults \<Rightarrow> bool \<times> bool \<Rightarrow> string \<Rightarrow> world \<times> MediaPipeline
     \<Rightarrow> (world \<times> MediaPipeline) \<times> (error + element)" where
  "createWebRtcEndpoint rejects mediaConstraints ident =
     createElementCall rejects
       (CreateWebRtcEndpoint (fst mediaConstraints) (snd mediaConstraints)) ident
       ''Error creating WebRTC endpoint''"

definition createRecorderEndpoint ::
  "faults \<Rightarrow> string \<times> MediaProfile option \<Rightarrow> string \<Rightarrow> world \<times> MediaPipeline
     \<Rightarrow> (world \<times> MediaPipeline) \<times> (error + element)" where
  "createRecorderEndpoint rejects recorderOptions ident =
     createElementCall rejects
       (CreateRecorderEndpoint (fst recorderOptions) (snd recorderOptions)) ident
       ''Error creating recorder endpoint''"

text \<open>
  \<^verbatim>\<open>connect(source, sink, type?)\<close>: \<open>None\<close> for the type is the call without a media
  type, which wires both tracks.
\<close>

definition MediaPipeline_connect ::
  "faults \<Rightarrow> element \<Rightarrow> element \<Rightarrow> MediaType option \<Rightarrow> world \<Rightarrow> MediaPipeline
     \<Rightarrow> world \<times> (error + unit)" where
  "MediaPipeline_connect rejects source sink ty w p =
     (if \<not> ensurePipeline p
      then (log_error ''Attempt to use released or non-existent pipeline'' w,
            Inl (MediaError MEDIA_PIPELINE_ERROR))
      else
        (let (w1, ok) = request rejects (Connect source sink ty) w
         in if ok then (w1, Inr ())
            else (log_error ''Error connecting elements'' w1,
                  Inl (MediaError MEDIA_PIPELINE_ERROR))))"

definition createBlankVideoElement ::
  "faults \<Rightarrow> world \<Rightarrow> MediaPipeline \<Rightarrow> world \<times> (error + element)" where
  "createBlankVideoElement rejects w p =
     (if pipeline p = None then (w, Inl (MediaError PIPELINE_NOT_READY))
      else
        (let (w1, ok) = request rejects CreatePassThrough w
         in if ok then (w1, Inr (length (kms w)))
            else (log_error ''Error creating blank video element'' w1,
                  Inl (MediaError ELEMENT_CREATION_FAILED))))"

definition MediaPipeline_release ::
  "faults \<Rightarrow> world \<times> MediaPipeline \<Rightarrow> (world \<times> MediaPipeline) \<times> (error + unit)" where
  "MediaPipeline_release rejects = (\<lambda>(w, p).
     case pipeline p of
       None \<Rightarrow> ((w, p), Inr ())
     | Some h \<Rightarrow>
         if isReleased p then ((w, p), Inr ())
         else
           (let (w1, ok) = request rejects (Release h) w
            in if ok
               then ((w1, p\<lparr>pipeline := None, elements := [], isReleased := True\<rparr>), Inr ())
               else ((log_error ''Error releasing media pipeline'' w1, p),
                     Inl (MediaError PIPELINE_RELEASE_FAILED))))"

section \<open>EndpointManager\<close>

record EndpointManager =
  em_webRtcEndpoint :: "element option"
  em_recorderEndpoint :: "element option"
  em_recordingMode :: "RecordingMode option"
  isRecording :: bool
  em_blankScreenElement :: "element option"

definition new_EndpointManager :: EndpointManager where
  "new_EndpointManager =
     \<lparr>em_webRtcEndpoint = None, em_recorderEndpoint = None, em_recordingMode = None,
      isRecording = False, em_blankScreenElement = None\<rparr>"

record EndpointCreationOptions =
  eo_recordingMode :: RecordingMode
  eo_mediaProfile :: "MediaProfile option"
  eo_filePath :: string
  eo_hasAudio :: bool

text \<open>\<^verbatim>\<open>prepareWebRtcOptions\<close>: the media constraints \<open>(audio, video)\<close> of the ingress element.\<close>

definition prepareWebRtcOptions :: "EndpointCreationOptions \<Rightarrow> bool \<times> bool" where
  "prepareWebRtcOptions options =
     (if eo_recordingMode options = AUDIO_ONLY then (True, False)
      else if eo_recordingMode options = VIDEO_ONLY then (False, True)
      else (eo_hasAudio options, True))"

text \<open>
  \<^verbatim>\<open>prepareRecorderOptions\<close>: the target and the profile. The conversion of the path to a
  URI (\<^verbatim>\<open>createFileUri\<close>, built on Node's \<^verbatim>\<open>path.normalize\<close>) is a parameter.
\<close>

definition prepareRecorderOptions ::
  "(string \<Rightarrow> string) \<Rightarrow> EndpointCreationOptions \<Rightarrow> string \<times> MediaProfile option" where
  "prepareRecorderOptions createFileUri options =
     (createFileUri (eo_filePath options), eo_mediaProfile options)"

text \<open>
  \<^verbatim>\<open>connectEndpoints(recordingMode)\<close>: the \<^verbatim>\<open>switch\<close> with its \<^verbatim>\<open>default:\<close> branch. Any
  rejection inside the \<^verbatim>\<open>try\<close> is wrapped as a media error.
\<close>

definition connectEndpoints ::
  "faults \<Rightarrow> RecordingMode \<Rightarrow> world \<Rightarrow> MediaPipeline \<Rightarrow> EndpointManager
     \<Rightarrow> world \<times> (error + unit)" where
  "connectEndpoints rejects recordingMode0 w p em =
     (case (em_webRtcEndpoint em, em_recorderEndpoint em) of
        (Some webRtc, Some recorder) \<Rightarrow>
          (let (w1, r) =
                 (case recordingMode0 of
                    AUDIO_VIDEO \<Rightarrow> MediaPipeline_connect rejects webRtc recorder None w p
                  | AUDIO_ONLY \<Rightarrow> MediaPipeline_connect rejects webRtc recorder (Some AUDIO) w p
                  | VIDEO_ONLY \<Rightarrow> MediaPipeline_connect rejects webRtc recorder (Some VIDEO) w p
                  | UNRECOGNIZED v \<Rightarrow>
                      MediaPipeline_connect rejects webRtc recorder None
                        (warn ''Unknown recording mode'' w) p)
           in case r of
                Inr u \<Rightarrow> (w1, Inr ())
              | Inl e \<Rightarrow> (log_error ''Error connecting endpoints'' w1,
                          Inl (MediaError MEDIA_PIPELINE_ERROR)))
      | _ \<Rightarrow> (w, Inl (MediaError ENDPOINT_CREATION_FAILED)))"

text \<open>
  \<^verbatim>\<open>createEndpoints(options)\<close>. The fields are assigned as the calls resolve, so a failure
  half-way leaves the elements created so far in the manager.
\<close>

definition createEndpoints ::
  "faults \<Rightarrow> (string \<Rightarrow> string) \<Rightarrow> EndpointCreationOptions
     \<Rightarrow> world \<times> MediaPipeline \<times> EndpointManager
     \<Rightarrow> (world \<times> MediaPipeline \<times> EndpointManager) \<times> (error + element \<times> element)" where
  "createEndpoints rejects createFileUri options = (\<lambda>(w, p, em0).
     let em = em0\<lparr>em_recordingMode := Some (eo_recordingMode options)\<rparr>;
         failed = (\<lambda>w' p' em'.
           ((log_error ''Error creating endpoints'' w', p', em'),
            Inl (MediaError ENDPOINT_CREATION_FAILED)))
     in case createWebRtcEndpoint rejects (prepareWebRtcOptions options) ''webrtc'' (w, p) of
          ((w1, p1), Inl e) \<Rightarrow> failed w1 p1 em
        | ((w1, p1), Inr webRtc) \<Rightarrow>
            (let em1 = em\<lparr>em_webRtcEndpoint := Some webRtc\<rparr>
             in case createRecorderEndpoint rejects
                       (prepareRecorderOptions createFileUri options) ''recorder'' (w1, p1) of
                  ((w2, p2), Inl e) \<Rightarrow> failed w2 p2 em1
                | ((w2, p2), Inr recorder) \<Rightarrow>
                    (let em2 = em1\<lparr>em_recorderEndpoint := Some recorder\<rparr>
                     in case connectEndpoints rejects (eo_recordingMode options) w2 p2 em2 of
                          (w3, Inl e) \<Rightarrow> failed w3 p2 em2
                        | (w3, Inr u) \<Rightarrow> ((w3, p2, em2), Inr (webRtc, recorder)))))"

text \<open>\<^verbatim>\<open>startRecording()\<close> and \<^verbatim>\<open>stopRecording()\<close>\<close>

definition startRecording ::
  "faults \<Rightarrow> world \<times> EndpointManager \<Rightarrow> (world \<times> EndpointManager) \<times> (error + unit)" where
  "startRecording rejects = (\<lambda>(w, em).
     case em_recorderEndpoint em of
       None \<Rightarrow> ((w, em), Inl (MediaError RECORDING_START_ERROR))
     | Some recorder \<Rightarrow>
         if isRecording em then ((warn ''Recording already started'' w, em), Inr ())
         else
           (let (w1, ok) = request rejects (Record recorder) w
            in if ok then ((w1, em\<lparr>isRecording := True\<rparr>), Inr ())
               else ((log_error ''Error starting recording'' w1, em),
                     Inl (MediaError RECORDING_START_ERROR))))"

definition stopRecording ::
  "faults \<Rightarrow> world \<times> EndpointManager \<Rightarrow> (world \<times> EndpointManager) \<times> (error + unit)" where
  "stopRecording rejects = (\<lambda>(w, em).
     case em_recorderEndpoint em of
       None \<Rightarrow> ((w, em), Inl (MediaError RECORDING_STOP_ERROR))
     | Some recorder \<Rightarrow>
         if \<not> isRecording em
         then ((warn ''Recording not started, nothing to stop'' w, em), Inr ())
         else
           (let (w1, ok) = request rejects (Stop recorder) w
            in if ok then ((w1, em\<lparr>isRecording := False\<rparr>), Inr ())
               else ((log_error ''Error stopping recording'' w1, em),
                     Inl (MediaError RECORDING_STOP_ERROR))))"

text \<open>
  \<^verbatim>\<open>releaseEndpoints()\<close>: three independent steps, each with its own \<^verbatim>\<open>try\<close>/\<^verbatim>\<open>catch\<close>
  that logs a warning; nothing reaches the outer \<^verbatim>\<open>catch\<close>, so there is no error result.
\<close>

definition releaseEndpoints ::
  "faults \<Rightarrow> world \<times> EndpointManager \<Rightarrow> world \<times> EndpointManager" where
  "releaseEndpoints rejects = (\<lambda>(w, em).
     let (w1, em1) =
           (case em_recorderEndpoint em of
              Some recorder \<Rightarrow>
                if isRecording em
                then (let (w', ok) = request rejects (Stop recorder) w
                      in if ok then (w', em\<lparr>isRecording := False\<rparr>)
                         else (warn ''Error stopping recording during release'' w', em))
                else (w, em)
            | None \<Rightarrow> (w, em));
         (w2, em2) =
           (case em_recorderEndpoint em1 of
              Some recorder \<Rightarrow>
                (let (w', ok) = request rejects (Release recorder) w1
                 in if ok then (w', em1\<lparr>em_recorderEndpoint := None\<rparr>)
                    else (warn ''Error releasing recorder endpoint'' w', em1))
            | None \<Rightarrow> (w1, em1))
     in case em_webRtcEndpoint em2 of
          Some webRtc \<Rightarrow>
            (let (w', ok) = request rejects (Release webRtc) w2
             in if ok then (w', em2\<lparr>em_webRtcEndpoint := None\<rparr>)
                else (warn ''Error releasing WebRTC endpoint'' w', em2))
        | None \<Rightarrow> (w2, em2))"

text \<open>\<^verbatim>\<open>disconnectEndpoints\<close>: a rejected disconnect is logged and swallowed.\<close>

definition disconnectEndpoints ::
  "faults \<Rightarrow> element \<Rightarrow> element \<Rightarrow> MediaType option \<Rightarrow> world \<Rightarrow> world" where
  "disconnectEndpoints rejects source sink ty w =
     (let (w1, ok) = request rejects (Disconnect source sink ty) w
      in if ok then w1 else warn ''Direct disconnect failed, using workaround'' w1)"

definition records_video :: "RecordingMode option \<Rightarrow> bool" where
  "records_video m = (m = Some AUDIO_VIDEO \<or> m = Some VIDEO_ONLY)"

definition connectBlankScreen ::
  "faults \<Rightarrow> element \<Rightarrow> world \<times> MediaPipeline \<times> EndpointManager
     \<Rightarrow> (world \<times> EndpointManager) \<times> (error + unit)" where
  "connectBlankScreen rejects blankElement = (\<lambda>(w, p, em).
     case em_recorderEndpoint em of
       None \<Rightarrow> ((w, em), Inl (MediaError MEDIA_CONNECTION_ERROR))
     | Some recorder \<Rightarrow>
         (let em1 = em\<lparr>em_blankScreenElement := Some blankElement\<rparr>;
              w1 = (case em_webRtcEndpoint em1 of
                      Some webRtc \<Rightarrow>
                        if records_video (em_recordingMode em1)
                        then disconnectEndpoints rejects webRtc recorder (Some VIDEO) w
                        else w
                    | None \<Rightarrow> w)
          in case MediaPipeline_connect rejects blankElement recorder (Some VIDEO) w1 p of
               (w2, Inr u) \<Rightarrow> ((w2, em1), Inr ())
             | (w2, Inl e) \<Rightarrow>
                 ((log_error ''Error connecting blank screen'' w2, em1),
                  Inl (MediaError MEDIA_CONNECTION_ERROR))))"

definition disconnectBlankScreen ::
  "faults \<Rightarrow> world \<times> MediaPipeline \<times> EndpointManager \<Rightarrow> world \<times> (error + unit)" where
  "disconnectBlankScreen rejects = (\<lambda>(w, p, em).
     case (em_recorderEndpoint em, em_webRtcEndpoint em) of
       (Some recorder, Some webRtc) \<Rightarrow>
         (let w1 = (case em_blankScreenElement em of
                      Some blank \<Rightarrow> disconnectEndpoints rejects blank recorder (Some VIDEO) w
                    | None \<Rightarrow> w)
          in if records_video (em_recordingMode em)
             then (case MediaPipeline_connect rejects webRtc recorder (Some VIDEO) w1 p of
                     (w2, Inr u) \<Rightarrow> (w2, Inr ())
                   | (w2, Inl e) \<Rightarrow>
                       (log_error ''Error disconnecting blank screen'' w2,
                        Inl (MediaError MEDIA_CONNECTION_ERROR)))
             else (w1, Inr ()))
     | _ \<Rightarrow> (w, Inl (MediaError MEDIA_CONNECTION_ERROR)))"

section \<open>WebRTCHandler\<close>

record WebRTCHandler =
  webRtcEndpoint :: "element option"
  pendingCandidates :: "IceCandidate list"

definition new_WebRTCHandler :: WebRTCHandler where
  "new_WebRTCHandler = \<lparr>webRtcEndpoint = None, pendingCandidates = []\<rparr>"

text \<open>
  The \<^verbatim>\<open>for\<close> loop of \<^verbatim>\<open>applyPendingCandidates\<close>: each candidate is forwarded inside its
  own \<^verbatim>\<open>try\<close>; a rejection is logged as a warning and the loop goes on.
\<close>

fun forwardCandidates :: "faults \<Rightarrow> element \<Rightarrow> IceCandidate list \<Rightarrow> world \<Rightarrow> world" where
  "forwardCandidates rejects endpoint [] w = w"
| "forwardCandidates rejects endpoint (c # cs) w =
     (let (w1, ok) = request rejects (AddIceCandidate endpoint c) w
      in forwardCandidates rejects endpoint cs
           (if ok then w1 else warn ''Error applying pending ICE candidate'' w1))"

definition applyPendingCandidates ::
  "faults \<Rightarrow> world \<times> WebRTCHandler \<Rightarrow> (world \<times> WebRTCHandler) \<times> (error + unit)" where
  "applyPendingCandidates rejects = (\<lambda>(w, h).
     case webRtcEndpoint h of
       None \<Rightarrow> ((w, h), Inr ())
     | Some endpoint \<Rightarrow>
         if pendingCandidates h = [] then ((w, h), Inr ())
         else
           (let candidates = pendingCandidates h;
                h1 = h\<lparr>pendingCandidates := []\<rparr>
            in ((forwardCandidates rejects endpoint candidates w, h1), Inr ())))"

text \<open>
  \<^verbatim>\<open>setEndpoint(endpoint)\<close> is synchronous and starts the flush without awaiting it; the
  model runs the flush to its end at once. Registering the \<^verbatim>\<open>IceCandidateFound\<close>
  listener on the local endpoint object is not modelled.
\<close>

definition setEndpoint ::
  "faults \<Rightarrow> element \<Rightarrow> world \<times> WebRTCHandler \<Rightarrow> (world \<times> WebRTCHandler) \<times> (error + unit)" where
  "setEndpoint rejects endpoint = (\<lambda>(w, h).
     let h1 = h\<lparr>webRtcEndpoint := Some endpoint\<rparr>
     in if pendingCandidates h1 \<noteq> [] then applyPendingCandidates rejects (w, h1)
        else ((w, h1), Inr ()))"

definition WebRTCHandler_addIceCandidate ::
  "faults \<Rightarrow> IceCandidate \<Rightarrow> world \<times> WebRTCHandler
     \<Rightarrow> (world \<times> WebRTCHandler) \<times> (error + unit)" where
  "WebRTCHandler_addIceCandidate rejects c = (\<lambda>(w, h).
     case webRtcEndpoint h of
       None \<Rightarrow> ((w, h\<lparr>pendingCandidates := pendingCandidates h @ [c]\<rparr>), Inr ())
     | Some endpoint \<Rightarrow>
         (let (w1, ok) = request rejects (AddIceCandidate endpoint c) w
          in if ok then ((w1, h), Inr ())
             else ((log_error ''Error adding ICE candidate'' w1, h),
                   Inl (WebRTCError WEBRTC_ICE_ERROR))))"

text \<open>
  \<^verbatim>\<open>processOffer(sdpOffer)\<close>: the offer body goes to the server; \<open>answerSdp\<close> is the body
  the server returns.
\<close>

definition WebRTCHandler_processOffer ::
  "faults \<Rightarrow> string \<Rightarrow> string \<Rightarrow> world \<Rightarrow> WebRTCHandler \<Rightarrow> world \<times> (error + string)" where
  "WebRTCHandler_processOffer rejects answerSdp offerSdp w h =
     (case webRtcEndpoint h of
        None \<Rightarrow> (w, Inl (WebRTCError WEBRTC_OFFER_ERROR))
      | Some endpoint \<Rightarrow>
          (let (w1, ok) = request rejects (ProcessOffer endpoint offerSdp) w
           in if ok then (w1, Inr answerSdp)
              else (log_error ''Error processing SDP offer'' w1,
                    Inl (WebRTCError WEBRTC_OFFER_ERROR))))"

definition gatherCandidates ::
  "faults \<Rightarrow> world \<Rightarrow> WebRTCHandler \<Rightarrow> world \<times> (error + unit)" where
  "gatherCandidates rejects w h =
     (case webRtcEndpoint h of
        None \<Rightarrow> (w, Inl (WebRTCError WEBRTC_ICE_ERROR))
      | Some endpoint \<Rightarrow>
          (let (w1, ok) = request rejects (GatherCandidates endpoint) w
           in if ok then (w1, Inr ())
              else (log_error ''Error gathering ICE candidates'' w1,
                    Inl (WebRTCError WEBRTC_ICE_ERROR))))"

definition setQualityParameters ::
  "faults \<Rightarrow> int \<Rightarrow> int \<Rightarrow> world \<Rightarrow> WebRTCHandler \<Rightarrow> world \<times> (error + unit)" where
  "setQualityParameters rejects minBitrate0 maxBitrate0 w h =
     (case webRtcEndpoint h of
        None \<Rightarrow> (w, Inl (WebRTCError WEBRTC_OFFER_ERROR))
      | Some endpoint \<Rightarrow>
          (let failed = (\<lambda>w'. (log_error ''Error setting quality parameters'' w',
                               Inl (WebRTCError WEBRTC_OFFER_ERROR)));
               (w1, ok1) = (if minBitrate0 > 0
                            then request rejects (SetMinVideoSendBandwidth endpoint minBitrate0) w
                            else (w, True))
           in if \<not> ok1 then failed w1
              else
                (let (w2, ok2) =
                       (if maxBitrate0 > 0
                        then request rejects (SetMaxVideoSendBandwidth endpoint maxBitrate0) w1
                        else (w1, True))
                 in if ok2 then (w2, Inr ()) else failed w2)))"

definition hasEndpoint :: "WebRTCHandler \<Rightarrow> bool" where
  "hasEndpoint h = (webRtcEndpoint h \<noteq> None)"

section \<open>RecordingSession\<close>

record RecordingResult =
  path :: string
  duration :: int
  result_mediaProfile :: "MediaProfile option"
  result_sessionId :: string
  timestamp_start :: int
  timestamp_end :: int

datatype session_event =
  StateChange RecordingState
  | RecordingStarted int
  | RecordingStopped RecordingResult
  | PausedEvent int PauseType
  | ResumedEvent int int PauseType

text \<open>
  The fields of the class. Times are epoch milliseconds (\<^verbatim>\<open>Date.now()\<close>), which every
  operation that reads the clock takes as its argument \<open>now\<close>. \<open>emitted\<close> is the list of
  events the session has emitted, oldest first.
\<close>

record RecordingSession =
  options :: SessionOptions
  session_pipeline :: MediaPipeline
  webrtcHandler :: WebRTCHandler
  endpointManager :: "EndpointManager option"
  state :: RecordingState
  startTime :: int
  stopTime :: int
  pauseStartTime :: int
  totalPausedTime :: int
  blankScreenElement :: "element option"
  pauseType :: PauseType
  isAudioPaused :: bool
  isVideoPaused :: bool
  emitted :: "session_event list"

definition new_RecordingSession :: "SessionOptions \<Rightarrow> MediaPipeline \<Rightarrow> RecordingSession" where
  "new_RecordingSession opts p =
     \<lparr>options = opts, session_pipeline = p, webrtcHandler = new_WebRTCHandler,
      endpointManager = None, state = CREATED, startTime = 0, stopTime = 0,
      pauseStartTime = 0, totalPausedTime = 0, blankScreenElement = None,
      pauseType = BOTH, isAudioPaused = False, isVideoPaused = False, emitted = []\<rparr>"

definition emit :: "session_event \<Rightarrow> RecordingSession \<Rightarrow> RecordingSession" where
  "emit ev s = s\<lparr>emitted := emitted s @ [ev]\<rparr>"

definition setState :: "RecordingState \<Rightarrow> RecordingSession \<Rightarrow> RecordingSession" where
  "setState st s = emit (StateChange st) (s\<lparr>state := st\<rparr>)"

definition RecordingSession_initialize :: "RecordingSession \<Rightarrow> RecordingSession" where
  "RecordingSession_initialize s = setState READY (s\<lparr>endpointManager := Some new_EndpointManager\<rparr>)"

text \<open>
  \<^verbatim>\<open>Math.round(ms / 1000)\<close> on an integer number of milliseconds: the nearest integer,
  a half rounded up, which is \<open>\<lfloor>(ms + 500) / 1000\<rfloor>\<close>.
\<close>

definition round_seconds :: "int \<Rightarrow> int" where
  "round_seconds ms = (ms + 500) div 1000"

definition createRecordingResult :: "RecordingSession \<Rightarrow> RecordingResult" where
  "createRecordingResult s =
     (let duration0 =
            (if startTime s > 0 \<and> stopTime s > 0
             then (let totalElapsedMs = stopTime s - startTime s
                   in if \<not> insertBlankScreenOnPause (options s)
                      then round_seconds (totalElapsedMs - totalPausedTime s)
                      else round_seconds totalElapsedMs)
             else 0)
      in \<lparr>path = filePath (options s),
          duration = duration0,
          result_mediaProfile = mediaProfile (options s),
          result_sessionId = sessionId (options s),
          timestamp_start = startTime s,
          timestamp_end = stopTime s\<rparr>)"

text \<open>
  \<^verbatim>\<open>processOffer(sdpOffer)\<close>. The state guard throws before the \<^verbatim>\<open>try\<close>; everything
  after it is caught, puts the session in \<open>ERROR\<close> and is rethrown (a \<^verbatim>\<open>WebRTCError\<close> as
  it is, anything else as a session error).
\<close>

definition processOffer_failed ::
  "world \<Rightarrow> RecordingSession \<Rightarrow> error \<Rightarrow> (world \<times> RecordingSession) \<times> (error + string)" where
  "processOffer_failed w s e =
     ((log_error ''Error processing offer'' w, setState ERROR s),
      Inl (case e of WebRTCError c \<Rightarrow> WebRTCError c | _ \<Rightarrow> SessionError SESSION_NOT_READY))"

definition RecordingSession_processOffer ::
  "faults \<Rightarrow> (string \<Rightarrow> string) \<Rightarrow> string \<Rightarrow> string \<Rightarrow> world \<times> RecordingSession
     \<Rightarrow> (world \<times> RecordingSession) \<times> (error + string)" where
  "RecordingSession_processOffer rejects createFileUri answerSdp sdpOffer = (\<lambda>(w, s).
     if state s \<noteq> READY then ((w, s), Inl (SessionError SESSION_INVALID_STATE))
     else
       (case endpointManager s of
          None \<Rightarrow> processOffer_failed w s (SessionError SESSION_NOT_READY)
        | Some em \<Rightarrow>
            (case createEndpoints rejects createFileUri
                    \<lparr>eo_recordingMode = recordingMode (options s),
                     eo_mediaProfile = mediaProfile (options s),
                     eo_filePath = filePath (options s),
                     eo_hasAudio = hasAudio (options s)\<rparr>
                    (w, session_pipeline s, em) of
               ((w1, p1, em1), Inl e) \<Rightarrow>
                 processOffer_failed w1
                   (s\<lparr>session_pipeline := p1, endpointManager := Some em1\<rparr>) e
             | ((w1, p1, em1), Inr (webRtc, recorder)) \<Rightarrow>
                 (let s1 = s\<lparr>session_pipeline := p1, endpointManager := Some em1\<rparr>;
                      ((w2, h2), u) = setEndpoint rejects webRtc (w1, webrtcHandler s1);
                      s2 = s1\<lparr>webrtcHandler := h2\<rparr>
                  in case WebRTCHandler_processOffer rejects answerSdp sdpOffer w2 h2 of
                       (w3, Inl e) \<Rightarrow> processOffer_failed w3 s2 e
                     | (w3, Inr sdpAnswer) \<Rightarrow>
                         (case gatherCandidates rejects w3 h2 of
                            (w4, Inl e) \<Rightarrow> processOffer_failed w4 s2 e
                          | (w4, Inr u4) \<Rightarrow>
                              (case setQualityParameters rejects (minBitrate (options s2))
                                      (maxBitrate (options s2)) w4 h2 of
                                 (w5, Inl e) \<Rightarrow> processOffer_failed w5 s2 e
                               | (w5, Inr u5) \<Rightarrow> ((w5, s2), Inr sdpAnswer)))))))"

definition RecordingSession_addIceCandidate ::
  "faults \<Rightarrow> IceCandidate \<Rightarrow> world \<times> RecordingSession \<Rightarrow> world \<times> RecordingSession" where
  "RecordingSession_addIceCandidate rejects c = (\<lambda>(w, s).
     case WebRTCHandler_addIceCandidate rejects c (w, webrtcHandler s) of
       ((w1, h1), Inr u) \<Rightarrow> (w1, s\<lparr>webrtcHandler := h1\<rparr>)
     | ((w1, h1), Inl e) \<Rightarrow>
         (log_error ''Error adding ICE candidate'' w1, s\<lparr>webrtcHandler := h1\<rparr>))"

text \<open>\<^verbatim>\<open>start()\<close>: three guards that throw before the \<^verbatim>\<open>try\<close>, then the recorder is started.\<close>

definition RecordingSession_start ::
  "faults \<Rightarrow> int \<Rightarrow> world \<times> RecordingSession \<Rightarrow> (world \<times> RecordingSession) \<times> (error + unit)" where
  "RecordingSession_start rejects now = (\<lambda>(w, s).
     if state s \<noteq> READY then ((w, s), Inl (SessionError SESSION_INVALID_STATE))
     else
       (case endpointManager s of
          None \<Rightarrow> ((w, s), Inl (SessionError SESSION_NOT_READY))
        | Some em \<Rightarrow>
            if \<not> hasEndpoint (webrtcHandler s)
            then ((w, s), Inl (SessionError SESSION_NOT_READY))
            else
              (case startRecording rejects (w, em) of
                 ((w1, em1), Inr u) \<Rightarrow>
                   ((w1, emit (RecordingStarted now)
                           (setState RECORDING
                              (s\<lparr>endpointManager := Some em1, startTime := now\<rparr>))),
                    Inr ())
               | ((w1, em1), Inl e) \<Rightarrow>
                   ((log_error ''Error starting recording'' w1,
                     setState ERROR (s\<lparr>endpointManager := Some em1\<rparr>)),
                    Inl (case e of MediaError c \<Rightarrow> MediaError c
                         | _ \<Rightarrow> SessionError SESSION_INVALID_STATE)))))"

text \<open>
  \<^verbatim>\<open>insertPauseBlankScreen()\<close> and \<^verbatim>\<open>removePauseBlankScreen()\<close> catch and log whatever
  fails inside them; neither throws.
\<close>

definition insertPauseBlankScreen ::
  "faults \<Rightarrow> world \<times> RecordingSession \<Rightarrow> world \<times> RecordingSession" where
  "insertPauseBlankScreen rejects = (\<lambda>(w, s).
     case endpointManager s of
       None \<Rightarrow> (w, s)
     | Some em \<Rightarrow>
         if \<not> insertBlankScreenOnPause (options s) then (w, s)
         else
           (case createBlankVideoElement rejects w (session_pipeline s) of
              (w1, Inl e) \<Rightarrow> (log_error ''Error inserting blank screen'' w1, s)
            | (w1, Inr blank) \<Rightarrow>
                (case connectBlankScreen rejects blank (w1, session_pipeline s, em) of
                   ((w2, em2), Inr u) \<Rightarrow>
                     (w2, s\<lparr>blankScreenElement := Some blank, endpointManager := Some em2\<rparr>)
                 | ((w2, em2), Inl e) \<Rightarrow>
                     (log_error ''Error inserting blank screen'' w2,
                      s\<lparr>blankScreenElement := Some blank, endpointManager := Some em2\<rparr>))))"

definition removePauseBlankScreen ::
  "faults \<Rightarrow> world \<times> RecordingSession \<Rightarrow> world \<times> RecordingSession" where
  "removePauseBlankScreen rejects = (\<lambda>(w, s).
     case blankScreenElement s of
       None \<Rightarrow> (w, s)
     | Some blank \<Rightarrow>
         (let (w1, r) =
                (case endpointManager s of
                   Some em \<Rightarrow> disconnectBlankScreen rejects (w, session_pipeline s, em)
                 | None \<Rightarrow> (w, Inr ()))
          in case r of
               Inl e \<Rightarrow> (log_error ''Error removing blank screen'' w1, s)
             | Inr u \<Rightarrow>
                 (let (w2, ok) = request rejects (Release blank) w1
                  in if ok then (w2, s\<lparr>blankScreenElement := None\<rparr>)
                     else (log_error ''Error removing blank screen'' w2, s))))"

text \<open>
  \<^verbatim>\<open>stop()\<close>. Outside \<open>RECORDING\<close> and \<open>PAUSED\<close> a warning is logged, and every state but
  \<open>ERROR\<close> is refused; from \<open>ERROR\<close> the stop goes on as a clean-up.
\<close>

definition RecordingSession_stop ::
  "faults \<Rightarrow> int \<Rightarrow> world \<times> RecordingSession
     \<Rightarrow> (world \<times> RecordingSession) \<times> (error + RecordingResult)" where
  "RecordingSession_stop rejects now = (\<lambda>(w0, s).
     let w = (if state s \<noteq> RECORDING \<and> state s \<noteq> PAUSED
              then warn ''Trying to stop recording in state'' w0 else w0)
     in if state s \<noteq> RECORDING \<and> state s \<noteq> PAUSED \<and> state s \<noteq> ERROR
        then ((w, s), Inl (SessionError SESSION_INVALID_STATE))
        else
          (let (w1, s1) =
                 (if state s = PAUSED \<and> blankScreenElement s \<noteq> None
                  then removePauseBlankScreen rejects (w, s) else (w, s));
               ((w2, s2), r) =
                 (case endpointManager s1 of
                    Some em \<Rightarrow>
                      (case stopRecording rejects (w1, em) of
                         ((w', em'), r') \<Rightarrow> ((w', s1\<lparr>endpointManager := Some em'\<rparr>), r'))
                  | None \<Rightarrow> ((w1, s1), Inr ()))
           in case r of
                Inl e \<Rightarrow>
                  ((log_error ''Error stopping recording'' w2, setState ERROR s2),
                   Inl (SessionError RECORDING_STOP_ERROR))
              | Inr u \<Rightarrow>
                  (let s3 = setState STOPPED (s2\<lparr>stopTime := now\<rparr>);
                       result = createRecordingResult s3
                   in ((w2, emit (RecordingStopped result) s3), Inr result))))"

text \<open>
  \<^verbatim>\<open>pause(pauseType = PauseType.BOTH)\<close>: \<open>None\<close> is the call without an argument.
\<close>

definition RecordingSession_pause ::
  "faults \<Rightarrow> PauseType option \<Rightarrow> int \<Rightarrow> world \<times> RecordingSession
     \<Rightarrow> (world \<times> RecordingSession) \<times> (error + unit)" where
  "RecordingSession_pause rejects pauseType_arg now = (\<lambda>(w, s).
     if state s \<noteq> RECORDING then ((w, s), Inl (SessionError SESSION_INVALID_STATE))
     else
       (let pauseType0 = (case pauseType_arg of None \<Rightarrow> BOTH | Some t \<Rightarrow> t);
            s1 = s\<lparr>pauseStartTime := now, pauseType := pauseType0\<rparr>;
            s2 = (if pauseType0 = BOTH \<or> pauseType0 = AUDIO_ONLY_PAUSE
                  then s1\<lparr>isAudioPaused := True\<rparr> else s1);
            (w3, s3) =
              (if pauseType0 = BOTH \<or> pauseType0 = VIDEO_ONLY_PAUSE
               then (let sv = s2\<lparr>isVideoPaused := True\<rparr>
                     in if insertBlankScreenOnPause (options sv) \<and> blankScreenElement sv = None
                        then insertPauseBlankScreen rejects (w, sv) else (w, sv))
               else (w, s2))
        in ((w3, emit (PausedEvent (pauseStartTime s3) (pauseType s3)) (setState PAUSED s3)),
            Inr ())))"

text \<open>
  \<^verbatim>\<open>resume(resumeType?)\<close>: \<^verbatim>\<open>resumeType || this.pauseType\<close> takes the kind that was
  paused when no kind is given (every \<^verbatim>\<open>PauseType\<close> is a non-empty string).
\<close>

definition RecordingSession_resume ::
  "faults \<Rightarrow> PauseType option \<Rightarrow> int \<Rightarrow> world \<times> RecordingSession
     \<Rightarrow> (world \<times> RecordingSession) \<times> (error + unit)" where
  "RecordingSession_resume rejects resumeType now = (\<lambda>(w, s).
     if state s \<noteq> PAUSED then ((w, s), Inl (SessionError SESSION_INVALID_STATE))
     else
       (let actualResumeType = (case resumeType of None \<Rightarrow> pauseType s | Some t \<Rightarrow> t);
            currentTime = now;
            pauseDuration = currentTime - pauseStartTime s;
            s1 = s\<lparr>totalPausedTime := totalPausedTime s + pauseDuration\<rparr>;
            (w2, s2) =
              (if actualResumeType = BOTH
                  \<or> (actualResumeType = AUDIO_ONLY_PAUSE \<and> isAudioPaused s1)
                  \<or> (actualResumeType = VIDEO_ONLY_PAUSE \<and> isVideoPaused s1)
               then
                 (let sa = (if actualResumeType = BOTH \<or> actualResumeType = AUDIO_ONLY_PAUSE
                            then s1\<lparr>isAudioPaused := False\<rparr> else s1);
                      sv = (if actualResumeType = BOTH \<or> actualResumeType = VIDEO_ONLY_PAUSE
                            then sa\<lparr>isVideoPaused := False\<rparr> else sa)
                  in if (actualResumeType = BOTH \<or> actualResumeType = VIDEO_ONLY_PAUSE)
                        \<and> blankScreenElement sv \<noteq> None
                     then removePauseBlankScreen rejects (w, sv) else (w, sv))
               else (w, s1));
            s3 = (if \<not> isAudioPaused s2 \<and> \<not> isVideoPaused s2
                  then setState RECORDING s2 else s2)
        in ((w2, emit (ResumedEvent currentTime pauseDuration actualResumeType) s3), Inr ())))"

text \<open>\<^verbatim>\<open>release()\<close>: only a failed release of the pipeline is reported.\<close>

definition RecordingSession_release ::
  "faults \<Rightarrow> world \<times> RecordingSession \<Rightarrow> (world \<times> RecordingSession) \<times> (error + unit)" where
  "RecordingSession_release rejects = (\<lambda>(w, s).
     let (w1, s1) =
           (case blankScreenElement s of
              Some blank \<Rightarrow>
                (let (w', ok) = request rejects (Release blank) w
                 in if ok then (w', s\<lparr>blankScreenElement := None\<rparr>)
                    else (warn ''Error releasing blank screen element'' w', s))
            | None \<Rightarrow> (w, s));
         (w2, s2) =
           (case endpointManager s1 of
              Some em \<Rightarrow>
                (let (w', em') = releaseEndpoints rejects (w1, em)
                 in (w', s1\<lparr>endpointManager := Some em'\<rparr>))
            | None \<Rightarrow> (w1, s1))
     in case MediaPipeline_release rejects (w2, session_pipeline s2) of
          ((w3, p3), Inr u) \<Rightarrow> ((w3, s2\<lparr>session_pipeline := p3\<rparr>), Inr ())
        | ((w3, p3), Inl e) \<Rightarrow>
            ((log_error ''Error releasing session resources'' w3,
              s2\<lparr>session_pipeline := p3\<rparr>),
             Inl (SessionError RESOURCE_RELEASE_ERROR)))"

definition pause_kind :: "PauseType option \<Rightarrow> PauseType" where
  "pause_kind a = (case a of None \<Rightarrow> BOTH | Some t \<Rightarrow> t)"

definition resume_kind :: "PauseType option \<Rightarrow> RecordingSession \<Rightarrow> PauseType" where
  "resume_kind rt s = (case rt of None \<Rightarrow> pauseType s | Some t \<Rightarrow> t)"

definition resumed_state :: "bool \<Rightarrow> bool \<Rightarrow> RecordingState" where
  "resumed_state a v = (if \<not> a \<and> \<not> v then RECORDING else PAUSED)"

definition resumed_events :: "bool \<Rightarrow> bool \<Rightarrow> session_event list" where
  "resumed_events a v = (if \<not> a \<and> \<not> v then [StateChange RECORDING] else [])"

datatype call =
  PauseCall "PauseType option" int
  | ResumeCall "PauseType option" int
  | StopCall int


fun apply_call :: "faults \<Rightarrow> call \<Rightarrow> world \<times> RecordingSession \<Rightarrow> world \<times> RecordingSession" where
  "apply_call rejects (PauseCall k t) ws = fst (RecordingSession_pause rejects k t ws)"
| "apply_call rejects (ResumeCall k t) ws = fst (RecordingSession_resume rejects k t ws)"
| "apply_call rejects (StopCall t) ws = fst (RecordingSession_stop rejects t ws)"

fun run_calls :: "faults \<Rightarrow> call list \<Rightarrow> world \<times> RecordingSession \<Rightarrow> world \<times> RecordingSession" where
  "run_calls rejects [] ws = ws"
| "run_calls rejects (c # cs) ws = run_calls rejects cs (apply_call rejects c ws)"






definition no_faults :: faults where
  "no_faults = (\<lambda>i c. False)"

definition demo_options :: SessionOptions where
  "demo_options =
     \<lparr>sessionId = ''s1'', mediaProfile = Some WEBM, quality = HIGH,
      maxBitrate = 4000, minBitrate = 1000, recordingMode = AUDIO_VIDEO, hasAudio = True,
      width = 1920, height = 1080, frameRate = 30, shareType = UNKNOWN,
      filePath = ''/tmp/recording_s1.webm'', insertBlankScreenOnPause = False,
      blankScreenColor = ''black''\<rparr>"

definition demo_world :: world where
  "demo_world = \<lparr>kms = [CreateMediaPipeline], logged = []\<rparr>"

definition demo_pipeline :: MediaPipeline where
  "demo_pipeline = \<lparr>pipeline = Some 0, elements = [], isReleased = False\<rparr>"

definition file_uri :: "string \<Rightarrow> string" where
  "file_uri p = ''file://'' @ p"

definition demo_ready :: "world \<times> RecordingSession" where
  "demo_ready =
     fst (RecordingSession_processOffer no_faults file_uri ''answer'' ''offer''
            (demo_world, RecordingSession_initialize (new_RecordingSession demo_options demo_pipeline)))"

definition demo_recording :: "world \<times> RecordingSession" where
  "demo_recording = fst (RecordingSession_start no_faults 1000 demo_ready)"




fun addIceCandidates ::
  "faults \<Rightarrow> IceCandidate list \<Rightarrow> world \<times> WebRTCHandler \<Rightarrow> world \<times> WebRTCHandler" where
  "addIceCandidates rejects [] wh = wh"
| "addIceCandidates rejects (c # cs) wh =
     addIceCandidates rejects cs (fst (WebRTCHandler_addIceCandidate rejects c wh))"

definition rejected_positions :: "faults \<Rightarrow> element \<Rightarrow> IceCandidate list \<Rightarrow> nat \<Rightarrow> nat list" where
  "rejected_positions rejects endpoint cs n =
     filter (\<lambda>i. rejects (n + i) (AddIceCandidate endpoint (cs ! i))) [0..<length cs]"

definition flush_warning :: "LogLevel \<times> string" where
  "flush_warning = (LOG_WARN, ''Error applying pending ICE candidate'')"

definition cand :: "string \<Rightarrow> IceCandidate" where
  "cand c = \<lparr>candidate = c, sdpMid = Some ''0'', sdpMLineIndex = Some 0\<rparr>"

definition second_rejected :: faults where
  "second_rejected = (\<lambda>i c. i = 1)"

section \<open>KurentoConnector\<close>

text \<open>
  The connection options: every field but the URL is optional. Delays are numbers of
  milliseconds; they are reals here so that the jitter (a fraction) can multiply them.
\<close>

record KurentoConnectionOptions =
  kurentoUrl :: string
  reconnect :: "bool option"
  max_reconnectAttempts :: "nat option"
  reconnectInterval :: "int option"
  reconnectBaseDelay :: "real option"
  reconnectMaxDelay :: "real option"

datatype connector_event =
  EV_connected | EV_disconnected | EV_reconnected | EV_reconnect_failed
  | EV_reconnect_max_attempts "nat option"

text \<open>
  \<open>client\<close> is the handle of the open connection, \<open>reconnectTimer\<close> the delay of the
  pending retry timer, \<open>connector_emitted\<close> the events emitted so far, oldest first.
\<close>

record KurentoConnector =
  client :: "nat option"
  connector_options :: KurentoConnectionOptions
  isConnecting :: bool
  reconnectTimer :: "int option"
  reconnectAttempts :: nat
  connector_emitted :: "connector_event list"

definition new_KurentoConnector :: "KurentoConnectionOptions \<Rightarrow> KurentoConnector" where
  "new_KurentoConnector opts =
     \<lparr>client = None, connector_options = opts, isConnecting = False, reconnectTimer = None,
      reconnectAttempts = 0, connector_emitted = []\<rparr>"

definition connector_emit :: "connector_event \<Rightarrow> KurentoConnector \<Rightarrow> KurentoConnector" where
  "connector_emit ev k = k\<lparr>connector_emitted := connector_emitted k @ [ev]\<rparr>"

text \<open>
  \<^verbatim>\<open>ConfigManager.get(path)\<close> for the two paths the connector asks for, and \<^verbatim>\<open>a || b\<close> on
  numbers (\<^verbatim>\<open>undefined\<close> and \<open>0\<close> are falsy).
\<close>

definition DEFAULT_reconnectBaseDelay :: real where
  "DEFAULT_reconnectBaseDelay = 1000"

definition DEFAULT_reconnectMaxDelay :: real where
  "DEFAULT_reconnectMaxDelay = 30000"

definition or_number :: "real option \<Rightarrow> real \<Rightarrow> real" where
  "or_number a b = (case a of None \<Rightarrow> b | Some v \<Rightarrow> (if v = 0 then b else v))"

definition effective_baseDelay :: "KurentoConnector \<Rightarrow> real" where
  "effective_baseDelay k =
     or_number (reconnectBaseDelay (connector_options k)) DEFAULT_reconnectBaseDelay"

definition effective_maxDelay :: "KurentoConnector \<Rightarrow> real" where
  "effective_maxDelay k =
     or_number (reconnectMaxDelay (connector_options k)) DEFAULT_reconnectMaxDelay"

text \<open>
  \<^verbatim>\<open>Math.pow(2, attempts - 1)\<close> for a counter \<open>attempts \<ge> 0\<close>.
\<close>

definition pow2_pred :: "nat \<Rightarrow> real" where
  "pow2_pred attempts = (if attempts = 0 then 1 / 2 else 2 ^ (attempts - 1))"

text \<open>
  \<^verbatim>\<open>calculateReconnectDelay()\<close>. \<open>random\<close> is the value of \<^verbatim>\<open>Math.random()\<close>, in \<open>[0, 1)\<close>;
  the arithmetic is exact (real numbers, not doubles).
\<close>

definition calculateReconnectDelay :: "real \<Rightarrow> KurentoConnector \<Rightarrow> int" where
  "calculateReconnectDelay random k =
     (let baseDelay = effective_baseDelay k;
          maxDelay = effective_maxDelay k;
          exponentialBackoff = min maxDelay (baseDelay * pow2_pred (reconnectAttempts k));
          jitter = random * 0.5 + 0.5
      in \<lfloor>exponentialBackoff * jitter\<rfloor>)"

definition scheduleReconnect :: "real \<Rightarrow> KurentoConnector \<Rightarrow> KurentoConnector" where
  "scheduleReconnect random k =
     (let k1 = k\<lparr>reconnectAttempts := reconnectAttempts k + 1\<rparr>
      in k1\<lparr>reconnectTimer := Some (calculateReconnectDelay random k1)\<rparr>)"

definition may_retry :: "KurentoConnector \<Rightarrow> bool" where
  "may_retry k =
     (case max_reconnectAttempts (connector_options k) of
        None \<Rightarrow> False
      | Some n \<Rightarrow> reconnectAttempts k < n)"

text \<open>
  \<^verbatim>\<open>connect()\<close>: \<open>connect_ok\<close> says whether \<^verbatim>\<open>kurento.getSingleton\<close> resolves.
\<close>

definition KurentoConnector_connect ::
  "bool \<Rightarrow> real \<Rightarrow> KurentoConnector \<Rightarrow> KurentoConnector \<times> (error + nat)" where
  "KurentoConnector_connect connect_ok random k =
     (case client k of
        Some c \<Rightarrow> (k, Inr c)
      | None \<Rightarrow>
          if isConnecting k then (k, Inl (ConnectionError CONNECTION_IN_PROGRESS))
          else if connect_ok
          then (connector_emit EV_connected
                  (k\<lparr>client := Some 0, isConnecting := False, reconnectAttempts := 0\<rparr>),
                Inr 0)
          else
            (let k1 = k\<lparr>isConnecting := False, client := None\<rparr>
             in (if reconnect (connector_options k1) = Some True \<and> may_retry k1
                 then scheduleReconnect random k1 else k1,
                 Inl (ConnectionError CONNECTION_FAILED))))"

text \<open>
  \<^verbatim>\<open>disconnect()\<close>: \<open>close_ok\<close> says whether \<^verbatim>\<open>client.close()\<close> resolves. The \<^verbatim>\<open>catch\<close>
  forces the local state, emits the event and then throws.
\<close>

definition KurentoConnector_disconnect ::
  "bool \<Rightarrow> KurentoConnector \<Rightarrow> KurentoConnector \<times> (error + unit)" where
  "KurentoConnector_disconnect close_ok k =
     (let k1 = k\<lparr>reconnectTimer := None\<rparr>
      in case client k1 of
           None \<Rightarrow> (k1, Inr ())
         | Some c \<Rightarrow>
             if close_ok
             then (connector_emit EV_disconnected (k1\<lparr>client := None\<rparr>), Inr ())
             else (connector_emit EV_disconnected (k1\<lparr>client := None\<rparr>),
                   Inl (ConnectionError DISCONNECT_FAILED)))"

text \<open>
  The callback of the retry timer set by \<^verbatim>\<open>scheduleReconnect()\<close>: \<open>random\<close> is drawn by
  the \<^verbatim>\<open>connect()\<close> it calls, \<open>random'\<close> by the callback's own rescheduling.
\<close>

definition reconnectTimer_fired ::
  "bool \<Rightarrow> real \<Rightarrow> real \<Rightarrow> KurentoConnector \<Rightarrow> KurentoConnector" where
  "reconnectTimer_fired connect_ok random random' k =
     (case KurentoConnector_connect connect_ok random (k\<lparr>reconnectTimer := None\<rparr>) of
        (k1, Inr c) \<Rightarrow> connector_emit EV_reconnected k1
      | (k1, Inl e) \<Rightarrow>
          (let k2 = connector_emit EV_reconnect_failed k1
           in if may_retry k2 then scheduleReconnect random' k2
              else connector_emit
                     (EV_reconnect_max_attempts (max_reconnectAttempts (connector_options k2)))
                     k2))"

definition demo_connection_options :: KurentoConnectionOptions where
  "demo_connection_options =
     \<lparr>kurentoUrl = ''ws://localhost:8888/kurento'', reconnect = Some True,
      max_reconnectAttempts = Some 5, reconnectInterval = Some 2000,
      reconnectBaseDelay = None, reconnectMaxDelay = None\<rparr>"

definition connected_connector :: KurentoConnector where
  "connected_connector = fst (KurentoConnector_connect True 0 (new_KurentoConnector demo_connection_options))"




section \<open>RecordingManager\<close>

text \<open>
  The normalised manager configuration (\<^verbatim>\<open>Required<RecordingManagerConfig>\<close>) without the
  logger fields.
\<close>

record ManagerConfig =
  cfg_kurentoUrl :: string
  cfg_reconnectAttempts :: nat
  cfg_reconnectInterval :: int
  tempDir :: string
  preservePipelinesOnDisconnect :: bool
  maxReconnectionTimeMs :: int

datatype manager_event =
  M_CONNECTING | M_CONNECTED | M_DISCONNECTED | M_RECONNECTING | M_CONNECTION_FAILED
  | M_ERROR
  | M_SESSION_ENDED string RecordingResult
  | M_PIPELINE_PRESERVED nat int
  | M_PIPELINE_RELEASED string string
  | M_RECONNECTION_TIMED_OUT string int

text \<open>
  The registry \<open>sessions\<close> and the timer map \<open>pipelineReleaseTimers\<close> are JavaScript
  \<^verbatim>\<open>Map\<close>s: association lists in insertion order with distinct keys. A timer is
  represented by its delay. \<open>manager_emitted\<close> is the list of events emitted so far.
\<close>

record RecordingManager =
  config :: ManagerConfig
  kurentoConnector :: "KurentoConnector option"
  sessions :: "(string \<times> RecordingSession) list"
  isInitialized :: bool
  disconnectionTimestamp :: "int option"
  pipelineReleaseTimers :: "(string \<times> int) list"
  manager_emitted :: "manager_event list"

definition new_RecordingManager :: "ManagerConfig \<Rightarrow> RecordingManager" where
  "new_RecordingManager cfg =
     \<lparr>config = cfg, kurentoConnector = None, sessions = [], isInitialized = False,
      disconnectionTimestamp = None, pipelineReleaseTimers = [], manager_emitted = []\<rparr>"

definition manager_emit :: "manager_event \<Rightarrow> RecordingManager \<Rightarrow> RecordingManager" where
  "manager_emit ev m = m\<lparr>manager_emitted := manager_emitted m @ [ev]\<rparr>"

definition getActiveSessionIds :: "RecordingManager \<Rightarrow> string list" where
  "getActiveSessionIds m = map fst (sessions m)"

text \<open>
  \<^verbatim>\<open>schedulePipelineRelease()\<close>: for every registered session, an existing timer is cleared
  and a new one is set with the configured window as its delay.
\<close>

definition schedulePipelineRelease :: "RecordingManager \<Rightarrow> RecordingManager" where
  "schedulePipelineRelease m =
     m\<lparr>pipelineReleaseTimers :=
          fold (\<lambda>sessionId0 timers. AList.update sessionId0 (maxReconnectionTimeMs (config m)) timers)
            (getActiveSessionIds m) (pipelineReleaseTimers m)\<rparr>"

definition clearPipelineReleaseTimers :: "RecordingManager \<Rightarrow> RecordingManager" where
  "clearPipelineReleaseTimers m = m\<lparr>pipelineReleaseTimers := []\<rparr>"

text \<open>
  The handlers that \<^verbatim>\<open>setupConnectorEventForwarding()\<close> registers on the connector. They
  run synchronously inside the connector's \<^verbatim>\<open>emit\<close>; \<open>now\<close> is the clock reading of the
  \<^verbatim>\<open>disconnected\<close> handler. The connector's \<^verbatim>\<open>reconnected\<close> and \<^verbatim>\<open>reconnect_max_attempts\<close>
  events have no handler.
\<close>

fun on_connector_event :: "int \<Rightarrow> connector_event \<Rightarrow> RecordingManager \<Rightarrow> RecordingManager" where
  "on_connector_event now EV_connected m = manager_emit M_CONNECTED m"
| "on_connector_event now EV_disconnected m =
     manager_emit M_DISCONNECTED
       (if preservePipelinesOnDisconnect (config m) \<and> sessions m \<noteq> []
        then schedulePipelineRelease (m\<lparr>disconnectionTimestamp := Some now\<rparr>)
        else m)"
| "on_connector_event now EV_reconnect_failed m = manager_emit M_CONNECTION_FAILED m"
| "on_connector_event now EV_reconnected m = m"
| "on_connector_event now (EV_reconnect_max_attempts n) m = m"

text \<open>
  After a step of the connector, the events it has emitted during the step are handed to
  the handlers, in order.
\<close>

definition forward_connector_events ::
  "int \<Rightarrow> KurentoConnector \<Rightarrow> KurentoConnector \<Rightarrow> RecordingManager \<Rightarrow> RecordingManager" where
  "forward_connector_events now before after m =
     fold (on_connector_event now)
       (drop (length (connector_emitted before)) (connector_emitted after))
       (m\<lparr>kurentoConnector := Some after\<rparr>)"

text \<open>
  \<^verbatim>\<open>stopSession(sessionId)\<close>: a failed stop leaves the session in the registry.
\<close>

definition stopSession ::
  "faults \<Rightarrow> int \<Rightarrow> string \<Rightarrow> world \<times> RecordingManager
     \<Rightarrow> (world \<times> RecordingManager) \<times> (error + RecordingResult)" where
  "stopSession rejects now sessionId0 = (\<lambda>(w, m).
     case map_of (sessions m) sessionId0 of
       None \<Rightarrow> ((w, m), Inl (SessionError SESSION_NOT_FOUND))
     | Some session \<Rightarrow>
         (let m1 = m\<lparr>pipelineReleaseTimers := AList.delete sessionId0 (pipelineReleaseTimers m)\<rparr>
          in case RecordingSession_stop rejects now (w, session) of
               ((w1, session1), Inr result) \<Rightarrow>
                 ((w1, manager_emit (M_SESSION_ENDED sessionId0 result)
                         (m1\<lparr>sessions := AList.delete sessionId0 (sessions m1)\<rparr>)),
                  Inr result)
             | ((w1, session1), Inl e) \<Rightarrow>
                 ((log_error ''Error stopping recording session'' w1,
                   m1\<lparr>sessions := AList.update sessionId0 session1 (sessions m1)\<rparr>),
                  Inl (SessionError RECORDING_STOP_ERROR))))"

text \<open>
  \<^verbatim>\<open>stopAllSessions()\<close>: the timers are cleared, then every session is stopped; a failure
  is logged and the others go on. The stops are run one after the other, all with the clock
  reading \<open>now\<close>.
\<close>

definition stopAllSessions ::
  "faults \<Rightarrow> int \<Rightarrow> world \<times> RecordingManager \<Rightarrow> world \<times> RecordingManager" where
  "stopAllSessions rejects now = (\<lambda>(w, m).
     fold (\<lambda>sessionId0 wm.
             case stopSession rejects now sessionId0 wm of
               (wm1, Inr result) \<Rightarrow> wm1
             | ((w1, m1), Inl e) \<Rightarrow> (log_error ''Error stopping session'' w1, m1))
       (getActiveSessionIds m) (w, clearPipelineReleaseTimers m))"

text \<open>
  \<^verbatim>\<open>disconnect(releasePipelines = false)\<close>. \<open>now\<close> is the clock reading of the method,
  \<open>now'\<close> the one of the \<^verbatim>\<open>disconnected\<close> handler, \<open>close_ok\<close> the outcome of closing the
  connection.
\<close>

definition RecordingManager_disconnect ::
  "faults \<Rightarrow> bool \<Rightarrow> bool \<Rightarrow> int \<Rightarrow> int \<Rightarrow> world \<times> RecordingManager
     \<Rightarrow> (world \<times> RecordingManager) \<times> (error + unit)" where
  "RecordingManager_disconnect rejects close_ok releasePipelines now now' = (\<lambda>(w, m).
     let (w1, m1) =
           (if sessions m \<noteq> [] \<and> preservePipelinesOnDisconnect (config m) \<and> \<not> releasePipelines
            then
              (let m' = m\<lparr>disconnectionTimestamp := Some now\<rparr>;
                   m'' = (if maxReconnectionTimeMs (config m') > 0
                          then schedulePipelineRelease m' else m')
               in (w, manager_emit
                        (M_PIPELINE_PRESERVED (length (sessions m''))
                           (maxReconnectionTimeMs (config m''))) m''))
            else if sessions m \<noteq> [] then stopAllSessions rejects now (w, m)
            else (w, m))
     in case kurentoConnector m1 of
          None \<Rightarrow> ((w1, m1), Inr ())
        | Some k \<Rightarrow>
            (case KurentoConnector_disconnect close_ok k of
               (k1, Inr u) \<Rightarrow>
                 ((w1, manager_emit M_DISCONNECTED
                         ((forward_connector_events now' k k1 m1)\<lparr>isInitialized := False\<rparr>)),
                  Inr ())
             | (k1, Inl e) \<Rightarrow>
                 ((log_error ''Error disconnecting from Kurento Media Server'' w1,
                   forward_connector_events now' k k1 m1),
                  Inl (ConnectionError DISCONNECT_FAILED))))"

text \<open>
  The callback of the release timer of one session. It can only run while its timer is
  in the map. A release that throws is logged: the session and its timer stay.
\<close>

definition pipelineReleaseTimer_fired ::
  "faults \<Rightarrow> string \<Rightarrow> world \<times> RecordingManager \<Rightarrow> world \<times> RecordingManager" where
  "pipelineReleaseTimer_fired rejects sessionId0 = (\<lambda>(w, m).
     if map_of (pipelineReleaseTimers m) sessionId0 = None then (w, m)
     else
       (let notify = (\<lambda>m'.
              manager_emit (M_PIPELINE_RELEASED sessionId0 ''reconnection-timeout'')
                (manager_emit
                   (M_RECONNECTION_TIMED_OUT sessionId0 (maxReconnectionTimeMs (config m')))
                   (m'\<lparr>pipelineReleaseTimers :=
                         AList.delete sessionId0 (pipelineReleaseTimers m')\<rparr>)));
            w0 = warn ''Reconnection timed out for session, releasing pipeline'' w
        in case map_of (sessions m) sessionId0 of
             None \<Rightarrow> (w0, notify m)
           | Some session \<Rightarrow>
               (case RecordingSession_release rejects (w0, session) of
                  ((w1, session1), Inr u) \<Rightarrow>
                    (w1, notify (m\<lparr>sessions := AList.delete sessionId0 (sessions m)\<rparr>))
                | ((w1, session1), Inl e) \<Rightarrow>
                    (log_error ''Error releasing pipeline for session'' w1,
                     m\<lparr>sessions := AList.update sessionId0 session1 (sessions m)\<rparr>))))"

text \<open>
  \<^verbatim>\<open>connect()\<close>. \<open>connect_ok\<close> is the outcome of the connection attempt, \<open>random\<close> the
  jitter draw of a retry it may schedule, \<open>mkdir_ok\<close> the outcome of
  \<^verbatim>\<open>ensureTempDirectory()\<close>, \<open>now\<close> the clock reading of a \<^verbatim>\<open>disconnected\<close> handler.
\<close>

definition RecordingManager_connect ::
  "bool \<Rightarrow> real \<Rightarrow> bool \<Rightarrow> int \<Rightarrow> RecordingManager \<Rightarrow> RecordingManager \<times> (error + unit)" where
  "RecordingManager_connect connect_ok random mkdir_ok now m =
     (if (case kurentoConnector m of Some k \<Rightarrow> client k \<noteq> None | None \<Rightarrow> False)
      then (m, Inr ())
      else
        (let m1 = manager_emit M_CONNECTING m;
             k = (case kurentoConnector m1 of
                    Some k0 \<Rightarrow> k0
                  | None \<Rightarrow>
                      new_KurentoConnector
                        \<lparr>kurentoUrl = cfg_kurentoUrl (config m1), reconnect = Some True,
                         max_reconnectAttempts = Some (cfg_reconnectAttempts (config m1)),
                         reconnectInterval = Some (cfg_reconnectInterval (config m1)),
                         reconnectBaseDelay = None, reconnectMaxDelay = None\<rparr>);
             failed = (\<lambda>m'. (manager_emit M_CONNECTION_FAILED m',
                              Inl (ConnectionError CONNECTION_FAILED)))
         in case KurentoConnector_connect connect_ok random k of
              (k1, Inl e) \<Rightarrow> failed (forward_connector_events now k k1 m1)
            | (k1, Inr c) \<Rightarrow>
                (let m2 = forward_connector_events now k k1 m1;
                     m3 = (if disconnectionTimestamp m2 \<noteq> None
                           then (clearPipelineReleaseTimers m2)\<lparr>disconnectionTimestamp := None\<rparr>
                           else m2)
                 in if mkdir_ok
                    then (manager_emit M_CONNECTED (m3\<lparr>isInitialized := True\<rparr>), Inr ())
                    else failed m3)))"

text \<open>
  The connector's own retry timer firing under the manager: the handlers see the events
  of the retry.
\<close>

definition RecordingManager_retry_fired ::
  "bool \<Rightarrow> real \<Rightarrow> real \<Rightarrow> int \<Rightarrow> RecordingManager \<Rightarrow> RecordingManager" where
  "RecordingManager_retry_fired connect_ok random random' now m =
     (case kurentoConnector m of
        None \<Rightarrow> m
      | Some k \<Rightarrow>
          (case reconnectTimer k of
             None \<Rightarrow> m
           | Some d \<Rightarrow>
               forward_connector_events now k
                 (reconnectTimer_fired connect_ok random random' k) m))"

text \<open>The state of the manager after the first half of a preserving disconnect.\<close>

definition preserved :: "int \<Rightarrow> RecordingManager \<Rightarrow> RecordingManager" where
  "preserved now m =
     manager_emit
       (M_PIPELINE_PRESERVED (length (sessions m)) (maxReconnectionTimeMs (config m)))
       (if maxReconnectionTimeMs (config m) > 0
        then schedulePipelineRelease (m\<lparr>disconnectionTimestamp := Some now\<rparr>)
        else m\<lparr>disconnectionTimestamp := Some now\<rparr>)"

text \<open>
  An example: a coordinator configured to preserve pipelines for 30 seconds, connected, with
  the recording session \<open>s1\<close> registered.
\<close>

definition demo_config :: ManagerConfig where
  "demo_config =
     \<lparr>cfg_kurentoUrl = ''ws://localhost:8888/kurento'', cfg_reconnectAttempts = 5,
      cfg_reconnectInterval = 2000, tempDir = ''/tmp'',
      preservePipelinesOnDisconnect = True, maxReconnectionTimeMs = 30000\<rparr>"

definition demo_manager :: RecordingManager where
  "demo_manager =
     (new_RecordingManager demo_config)
       \<lparr>kurentoConnector := Some connected_connector,
        sessions := [(''s1'', snd demo_recording)],
        isInitialized := True\<rparr>"

text \<open>\<^verbatim>\<open>RecordingManager.isConnected()\<close>\<close>

definition RecordingManager_isConnected :: "RecordingManager \<Rightarrow> bool" where
  "RecordingManager_isConnected m =
     (case kurentoConnector m of Some k \<Rightarrow> client k \<noteq> None | None \<Rightarrow> False)"

text \<open>The manager after a preserving disconnect, spelled out by the state of the connector.\<close>

definition after_preserving_disconnect ::
  "bool \<Rightarrow> int \<Rightarrow> int \<Rightarrow> RecordingManager \<Rightarrow> RecordingManager" where
  "after_preserving_disconnect close_ok now now' m =
     (case kurentoConnector m of
        None \<Rightarrow> preserved now m
      | Some k \<Rightarrow>
          (case client k of
             None \<Rightarrow>
               manager_emit M_DISCONNECTED
                 ((preserved now m)
                    \<lparr>kurentoConnector := Some (k\<lparr>reconnectTimer := None\<rparr>),
                     isInitialized := False\<rparr>)
           | Some c \<Rightarrow>
               (let m2 = manager_emit M_DISCONNECTED
                           (schedulePipelineRelease
                              ((preserved now m)
                                 \<lparr>kurentoConnector :=
                                    Some (connector_emit EV_disconnected
                                            (k\<lparr>reconnectTimer := None, client := None\<rparr>)),
                                  disconnectionTimestamp := Some now'\<rparr>))
                in if close_ok then manager_emit M_DISCONNECTED (m2\<lparr>isInitialized := False\<rparr>)
                   else m2)))"

text \<open>The example coordinator after \<^verbatim>\<open>disconnect()\<close> at time 5000, the close succeeding.\<close>

definition demo_preserved :: RecordingManager where
  "demo_preserved =
     snd (fst (RecordingManager_disconnect no_faults True False 5000 5001
                 (fst demo_recording, demo_manager)))"

text \<open>
  Then, at time 6000, \<^verbatim>\<open>connect()\<close> is called and the attempt fails: the connector schedules
  its own retry.
\<close>

definition demo_outage :: RecordingManager where
  "demo_outage = fst (RecordingManager_connect False 0 True 6000 demo_preserved)"

section \<open>Properties of the option normalisation\<close>


lemma validate_recordingMode:
  "validateSessionOptions pj u opts tmp = Inr n \<Longrightarrow>
   recordingMode n = or_mode (recordingMode_opt opts) DEFAULT_recordingMode"
  unfolding validateSessionOptions_def Let_def by (simp split: if_splits) auto

lemma validate_hasAudio:
  "validateSessionOptions pj u opts tmp = Inr n \<Longrightarrow>
   hasAudio n =
     (recordingMode n = AUDIO_ONLY \<or>
      nullish (hasAudio_opt opts) (recordingMode n \<noteq> VIDEO_ONLY \<and> DEFAULT_hasAudio))"
  unfolding validateSessionOptions_def Let_def by (simp split: if_splits) auto

lemma validate_audio_only_returns:
  "or_mode (recordingMode_opt opts) DEFAULT_recordingMode = AUDIO_ONLY \<Longrightarrow>
   \<exists>n. validateSessionOptions pj u opts tmp = Inr n"
  unfolding validateSessionOptions_def Let_def by simp







text \<open>
  Claim C10. With recording mode audio-only the normalisation always returns options and
  they have \<open>hasAudio = True\<close>, whatever the caller supplied for \<open>hasAudio\<close>; and when
  \<open>hasAudio\<close> is not supplied, the returned \<open>hasAudio\<close> is \<open>False\<close> for video-only mode and
  \<open>True\<close> for every other mode.
\<close>

theorem validateSessionOptions_hasAudio:
  "(recordingMode_opt opts = Some AUDIO_ONLY \<longrightarrow>
      (\<exists>n. validateSessionOptions pj u opts tmp = Inr n \<and> hasAudio n))
   \<and> (hasAudio_opt opts = None \<longrightarrow> validateSessionOptions pj u opts tmp = Inr n \<longrightarrow>
        hasAudio n = (recordingMode n \<noteq> VIDEO_ONLY))"
proof (intro conjI impI)
  assume "recordingMode_opt opts = Some AUDIO_ONLY"
  then have a: "or_mode (recordingMode_opt opts) DEFAULT_recordingMode = AUDIO_ONLY"
    by (simp add: or_mode_def)
  then obtain m where m: "validateSessionOptions pj u opts tmp = Inr m"
    using validate_audio_only_returns by blast
  with a have "hasAudio m"
    by (simp add: validate_hasAudio validate_recordingMode)
  with m show "\<exists>n. validateSessionOptions pj u opts tmp = Inr n \<and> hasAudio n"
    by blast
next
  assume "hasAudio_opt opts = None" "validateSessionOptions pj u opts tmp = Inr n"
  then show "hasAudio n = (recordingMode n \<noteq> VIDEO_ONLY)"
    by (auto simp add: validate_hasAudio nullish_def DEFAULT_hasAudio_def)
qed

lemma validate_example_2:
  "validateSessionOptions posix_join ''id''
        (empty_options\<lparr>recordingMode_opt := Some VIDEO_ONLY\<rparr>) ''/tmp''
      = Inr \<lparr>sessionId = ''id'', mediaProfile = Some WEBM_VIDEO_ONLY, quality = HIGH,
          maxBitrate = 4000, minBitrate = 1000,
          recordingMode = VIDEO_ONLY, hasAudio = False, width = 1920, height = 1080,
          frameRate = 30, shareType = UNKNOWN, filePath = ''/tmp/recording_id.webm'',
          insertBlankScreenOnPause = True, blankScreenColor = ''black''\<rparr>"
    by (simp add: validateSessionOptions_def empty_options_def posix_join_def or_string_def
        or_mode_def nullish_def DEFAULT_recordingMode_def DEFAULT_quality_def
        DEFAULT_hasAudio_def DEFAULT_insertBlankScreenOnPause_def
        DEFAULT_blankScreenColor_def)

theorem validateSessionOptions_hasAudio_witness:
  "hasAudio_opt (empty_options\<lparr>recordingMode_opt := Some AUDIO_ONLY, hasAudio_opt := Some False\<rparr>)
     = Some False
   \<and> (\<exists>n. validateSessionOptions posix_join ''id''
          (empty_options\<lparr>recordingMode_opt := Some AUDIO_ONLY, hasAudio_opt := Some False\<rparr>)
          ''/tmp'' = Inr n \<and> hasAudio n)
   \<and> hasAudio_opt (empty_options\<lparr>recordingMode_opt := Some VIDEO_ONLY\<rparr>) = None
   \<and> (\<exists>n. validateSessionOptions posix_join ''id''
          (empty_options\<lparr>recordingMode_opt := Some VIDEO_ONLY\<rparr>) ''/tmp'' = Inr n
        \<and> \<not> hasAudio n \<and> recordingMode n = VIDEO_ONLY)"
proof -
  have a: "\<exists>n. validateSessionOptions posix_join ''id''
          (empty_options\<lparr>recordingMode_opt := Some AUDIO_ONLY, hasAudio_opt := Some False\<rparr>)
          ''/tmp'' = Inr n \<and> hasAudio n"
    using validateSessionOptions_hasAudio[of
        "empty_options\<lparr>recordingMode_opt := Some AUDIO_ONLY, hasAudio_opt := Some False\<rparr>"
        posix_join "''id''" "''/tmp''"]
    by simp
  have n: "hasAudio_opt (empty_options\<lparr>recordingMode_opt := Some VIDEO_ONLY\<rparr>) = None"
    by (simp add: empty_options_def)
  have b: "\<exists>n. validateSessionOptions posix_join ''id''
          (empty_options\<lparr>recordingMode_opt := Some VIDEO_ONLY\<rparr>) ''/tmp'' = Inr n
        \<and> \<not> hasAudio n \<and> recordingMode n = VIDEO_ONLY"
    using validateSessionOptions_hasAudio[of
        "empty_options\<lparr>recordingMode_opt := Some VIDEO_ONLY\<rparr>"
        posix_join "''id''" "''/tmp''", THEN conjunct2, rule_format, OF n validate_example_2]
      validate_example_2
    by simp
  from a b n show ?thesis
    by simp
qed

section \<open>Properties of the session state machine\<close>

text \<open>
  Inserting and removing the blank screen touch only the blank-screen element and the
  endpoint manager of the session.
\<close>

lemma insertPauseBlankScreen_frame:
  "\<exists>w' b em. insertPauseBlankScreen rj (w, s) = (w', s\<lparr>blankScreenElement := b, endpointManager := em\<rparr>)"
proof (cases "endpointManager s")
  case None
  then have "insertPauseBlankScreen rj (w, s) = (w, s\<lparr>blankScreenElement := blankScreenElement s, endpointManager := endpointManager s\<rparr>)"
    by (simp add: insertPauseBlankScreen_def)
  then show ?thesis by blast
next
  case (Some em)
  show ?thesis
  proof (cases "insertBlankScreenOnPause (options s)")
    case False
    with Some have "insertPauseBlankScreen rj (w, s) = (w, s\<lparr>blankScreenElement := blankScreenElement s, endpointManager := endpointManager s\<rparr>)"
      by (simp add: insertPauseBlankScreen_def)
    then show ?thesis by blast
  next
    case True
    obtain w1 r where c: "createBlankVideoElement rj w (session_pipeline s) = (w1, r)"
      by (cases "createBlankVideoElement rj w (session_pipeline s)")
    show ?thesis
    proof (cases r)
      case (Inl e)
      with Some True c have "insertPauseBlankScreen rj (w, s) = (log_error ''Error inserting blank screen'' w1, s\<lparr>blankScreenElement := blankScreenElement s, endpointManager := endpointManager s\<rparr>)"
        by (simp add: insertPauseBlankScreen_def)
      then show ?thesis by blast
    next
      case (Inr blank)
      obtain w2 em2 r2 where d: "connectBlankScreen rj blank (w1, session_pipeline s, em) = ((w2, em2), r2)"
        by (cases "connectBlankScreen rj blank (w1, session_pipeline s, em)") auto
      with Some True c Inr show ?thesis
        by (cases r2; simp add: insertPauseBlankScreen_def; blast)
    qed
  qed
qed

lemma removePauseBlankScreen_frame:
  "\<exists>w' b. removePauseBlankScreen rj (w, s) = (w', s\<lparr>blankScreenElement := b\<rparr>)"
proof (cases "blankScreenElement s")
  case None
  then have "removePauseBlankScreen rj (w, s) = (w, s\<lparr>blankScreenElement := blankScreenElement s\<rparr>)"
    by (simp add: removePauseBlankScreen_def)
  then show ?thesis by blast
next
  case (Some blank)
  obtain w1 r where c: "(case endpointManager s of
                   Some em \<Rightarrow> disconnectBlankScreen rj (w, session_pipeline s, em)
                 | None \<Rightarrow> (w, Inr ())) = (w1, r)"
    by (cases "(case endpointManager s of
                   Some em \<Rightarrow> disconnectBlankScreen rj (w, session_pipeline s, em)
                 | None \<Rightarrow> (w, Inr ()))")
  show ?thesis
  proof (cases r)
    case (Inl e)
    with Some c have "removePauseBlankScreen rj (w, s) = (log_error ''Error removing blank screen'' w1, s\<lparr>blankScreenElement := blankScreenElement s\<rparr>)"
      by (simp add: removePauseBlankScreen_def)
    then show ?thesis by blast
  next
    case (Inr u)
    obtain w2 ok where d: "request rj (Release blank) w1 = (w2, ok)"
      by (cases "request rj (Release blank) w1")
    show ?thesis
    proof (cases ok)
      case True
      with Some c Inr d have "removePauseBlankScreen rj (w, s) = (w2, s\<lparr>blankScreenElement := None\<rparr>)"
        by (simp add: removePauseBlankScreen_def)
      then show ?thesis by blast
    next
      case False
      with Some c Inr d have "removePauseBlankScreen rj (w, s) = (log_error ''Error removing blank screen'' w2, s\<lparr>blankScreenElement := blankScreenElement s\<rparr>)"
        by (simp add: removePauseBlankScreen_def)
      then show ?thesis by blast
    qed
  qed
qed

lemma pause_accepted:
  assumes "state s = RECORDING"
  shows "\<exists>w' b em. RecordingSession_pause rj pt now (w, s) =
     ((w', s\<lparr>endpointManager := em, state := PAUSED, pauseStartTime := now,
              blankScreenElement := b, pauseType := pause_kind pt,
              isAudioPaused := (isAudioPaused s \<or> pause_kind pt \<noteq> VIDEO_ONLY_PAUSE),
              isVideoPaused := (isVideoPaused s \<or> pause_kind pt \<noteq> AUDIO_ONLY_PAUSE),
              emitted := emitted s @ [StateChange PAUSED, PausedEvent now (pause_kind pt)]\<rparr>),
      Inr ())"
proof -
  define k where "k = pause_kind pt"
  define s2 where "s2 = (if k = BOTH \<or> k = AUDIO_ONLY_PAUSE
                  then s\<lparr>pauseStartTime := now, pauseType := k, isAudioPaused := True\<rparr>
                  else s\<lparr>pauseStartTime := now, pauseType := k\<rparr>)"
  define sv where "sv = s2\<lparr>isVideoPaused := True\<rparr>"
  obtain wi b em where ins: "insertPauseBlankScreen rj (w, sv) = (wi, sv\<lparr>blankScreenElement := b, endpointManager := em\<rparr>)"
    using insertPauseBlankScreen_frame by blast
  show ?thesis
  proof (cases k)
    case BOTH
    show ?thesis
    proof (cases "insertBlankScreenOnPause (options s) \<and> blankScreenElement s = None")
      case True
      with assms BOTH ins have "RecordingSession_pause rj pt now (w, s) =
        ((wi, s\<lparr>endpointManager := em, state := PAUSED, pauseStartTime := now,
              blankScreenElement := b, pauseType := pause_kind pt,
              isAudioPaused := (isAudioPaused s \<or> pause_kind pt \<noteq> VIDEO_ONLY_PAUSE),
              isVideoPaused := (isVideoPaused s \<or> pause_kind pt \<noteq> AUDIO_ONLY_PAUSE),
              emitted := emitted s @ [StateChange PAUSED, PausedEvent now (pause_kind pt)]\<rparr>), Inr ())"
        by (simp add: RecordingSession_pause_def k_def[symmetric] pause_kind_def[symmetric] s2_def sv_def setState_def emit_def)
      then show ?thesis by blast
    next
      case False
      with assms BOTH have "RecordingSession_pause rj pt now (w, s) =
        ((w, s\<lparr>endpointManager := endpointManager s, state := PAUSED, pauseStartTime := now,
              blankScreenElement := blankScreenElement s, pauseType := pause_kind pt,
              isAudioPaused := (isAudioPaused s \<or> pause_kind pt \<noteq> VIDEO_ONLY_PAUSE),
              isVideoPaused := (isVideoPaused s \<or> pause_kind pt \<noteq> AUDIO_ONLY_PAUSE),
              emitted := emitted s @ [StateChange PAUSED, PausedEvent now (pause_kind pt)]\<rparr>), Inr ())"
        by (auto simp add: RecordingSession_pause_def k_def[symmetric] pause_kind_def[symmetric] setState_def emit_def)
      then show ?thesis by blast
    qed
  next
    case VIDEO_ONLY_PAUSE
    show ?thesis
    proof (cases "insertBlankScreenOnPause (options s) \<and> blankScreenElement s = None")
      case True
      with assms VIDEO_ONLY_PAUSE ins have "RecordingSession_pause rj pt now (w, s) =
        ((wi, s\<lparr>endpointManager := em, state := PAUSED, pauseStartTime := now,
              blankScreenElement := b, pauseType := pause_kind pt,
              isAudioPaused := (isAudioPaused s \<or> pause_kind pt \<noteq> VIDEO_ONLY_PAUSE),
              isVideoPaused := (isVideoPaused s \<or> pause_kind pt \<noteq> AUDIO_ONLY_PAUSE),
              emitted := emitted s @ [StateChange PAUSED, PausedEvent now (pause_kind pt)]\<rparr>), Inr ())"
        by (simp add: RecordingSession_pause_def k_def[symmetric] pause_kind_def[symmetric] s2_def sv_def setState_def emit_def)
      then show ?thesis by blast
    next
      case False
      with assms VIDEO_ONLY_PAUSE have "RecordingSession_pause rj pt now (w, s) =
        ((w, s\<lparr>endpointManager := endpointManager s, state := PAUSED, pauseStartTime := now,
              blankScreenElement := blankScreenElement s, pauseType := pause_kind pt,
              isAudioPaused := (isAudioPaused s \<or> pause_kind pt \<noteq> VIDEO_ONLY_PAUSE),
              isVideoPaused := (isVideoPaused s \<or> pause_kind pt \<noteq> AUDIO_ONLY_PAUSE),
              emitted := emitted s @ [StateChange PAUSED, PausedEvent now (pause_kind pt)]\<rparr>), Inr ())"
        by (auto simp add: RecordingSession_pause_def k_def[symmetric] pause_kind_def[symmetric] setState_def emit_def)
      then show ?thesis by blast
    qed
  next
    case AUDIO_ONLY_PAUSE
    with assms have "RecordingSession_pause rj pt now (w, s) =
        ((w, s\<lparr>endpointManager := endpointManager s, state := PAUSED, pauseStartTime := now,
              blankScreenElement := blankScreenElement s, pauseType := pause_kind pt,
              isAudioPaused := (isAudioPaused s \<or> pause_kind pt \<noteq> VIDEO_ONLY_PAUSE),
              isVideoPaused := (isVideoPaused s \<or> pause_kind pt \<noteq> AUDIO_ONLY_PAUSE),
              emitted := emitted s @ [StateChange PAUSED, PausedEvent now (pause_kind pt)]\<rparr>), Inr ())"
      by (simp add: RecordingSession_pause_def k_def[symmetric] pause_kind_def[symmetric] setState_def emit_def)
    then show ?thesis by blast
  qed
qed

lemma resume_accepted:
  assumes "state s = PAUSED"
  shows "\<exists>w' b. RecordingSession_resume rj rt now (w, s) =
     ((w', s\<lparr>state := resumed_state (isAudioPaused s \<and> resume_kind rt s = VIDEO_ONLY_PAUSE)
                         (isVideoPaused s \<and> resume_kind rt s = AUDIO_ONLY_PAUSE),
              totalPausedTime := totalPausedTime s + (now - pauseStartTime s),
              blankScreenElement := b,
              isAudioPaused := (isAudioPaused s \<and> resume_kind rt s = VIDEO_ONLY_PAUSE),
              isVideoPaused := (isVideoPaused s \<and> resume_kind rt s = AUDIO_ONLY_PAUSE),
              emitted := emitted s
                 @ resumed_events (isAudioPaused s \<and> resume_kind rt s = VIDEO_ONLY_PAUSE)
                         (isVideoPaused s \<and> resume_kind rt s = AUDIO_ONLY_PAUSE)
                 @ [ResumedEvent now (now - pauseStartTime s) (resume_kind rt s)]\<rparr>),
      Inr ())"
    (is "\<exists>w' b. _ = ((w', ?S b), _)")
proof -
  define k where "k = resume_kind rt s"
  define s1 where "s1 = s\<lparr>totalPausedTime := totalPausedTime s + (now - pauseStartTime s)\<rparr>"
  define sv where "sv = (if k = BOTH then s1\<lparr>isAudioPaused := False, isVideoPaused := False\<rparr>
                         else if k = AUDIO_ONLY_PAUSE then s1\<lparr>isAudioPaused := False\<rparr>
                         else s1\<lparr>isVideoPaused := False\<rparr>)"
  let ?T = "s\<lparr>state := resumed_state (isAudioPaused s \<and> resume_kind rt s = VIDEO_ONLY_PAUSE)
                         (isVideoPaused s \<and> resume_kind rt s = AUDIO_ONLY_PAUSE),
              totalPausedTime := totalPausedTime s + (now - pauseStartTime s),
              isAudioPaused := (isAudioPaused s \<and> resume_kind rt s = VIDEO_ONLY_PAUSE),
              isVideoPaused := (isVideoPaused s \<and> resume_kind rt s = AUDIO_ONLY_PAUSE),
              emitted := emitted s
                 @ resumed_events (isAudioPaused s \<and> resume_kind rt s = VIDEO_ONLY_PAUSE)
                         (isVideoPaused s \<and> resume_kind rt s = AUDIO_ONLY_PAUSE)
                 @ [ResumedEvent now (now - pauseStartTime s) (resume_kind rt s)]\<rparr>"
  have same: "?S (blankScreenElement s) = ?T" by simp
  obtain wr b where rem: "removePauseBlankScreen rj (w, sv) = (wr, sv\<lparr>blankScreenElement := b\<rparr>)"
    using removePauseBlankScreen_frame by blast
  have untouched: "\<not> ((k = BOTH \<or> k = VIDEO_ONLY_PAUSE \<and> isVideoPaused s) \<and> blankScreenElement s \<noteq> None)
     \<Longrightarrow> RecordingSession_resume rj rt now (w, s) = ((w, ?T), Inr ())"
    using assms
    by (cases k)
      (auto simp add: RecordingSession_resume_def k_def[symmetric] resume_kind_def[symmetric]
            Let_def setState_def emit_def resumed_state_def resumed_events_def)
  have removed: "(k = BOTH \<or> k = VIDEO_ONLY_PAUSE \<and> isVideoPaused s) \<and> blankScreenElement s \<noteq> None
     \<Longrightarrow> RecordingSession_resume rj rt now (w, s) = ((wr, ?S b), Inr ())"
    using assms rem
    by (cases k)
      (auto simp add: RecordingSession_resume_def k_def[symmetric] resume_kind_def[symmetric]
            s1_def sv_def Let_def setState_def emit_def resumed_state_def resumed_events_def)
  show ?thesis
  proof (cases "(k = BOTH \<or> k = VIDEO_ONLY_PAUSE \<and> isVideoPaused s) \<and> blankScreenElement s \<noteq> None")
    case True
    from removed[OF True] show ?thesis by blast
  next
    case False
    from untouched[OF False] same have
      "RecordingSession_resume rj rt now (w, s) = ((w, ?S (blankScreenElement s)), Inr ())"
      by simp
    then show ?thesis by blast
  qed
qed










lemmas eval_defs =
  no_faults_def demo_options_def demo_world_def demo_pipeline_def file_uri_def
  RecordingSession_processOffer_def RecordingSession_initialize_def new_RecordingSession_def
  new_WebRTCHandler_def new_EndpointManager_def setState_def emit_def
  createEndpoints_def createWebRtcEndpoint_def createRecorderEndpoint_def createElementCall_def
  prepareWebRtcOptions_def prepareRecorderOptions_def connectEndpoints_def
  MediaPipeline_connect_def ensurePipeline_def request_def setEndpoint_def
  WebRTCHandler_processOffer_def gatherCandidates_def setQualityParameters_def
  log_error_def warn_def hasEndpoint_def startRecording_def stopRecording_def
  RecordingSession_start_def RecordingSession_stop_def RecordingSession_pause_def
  RecordingSession_resume_def createRecordingResult_def round_seconds_def
  removePauseBlankScreen_def insertPauseBlankScreen_def

lemma demo_ready_eq:
  "demo_ready =
    (\<lparr>kms =
     [CreateMediaPipeline, CreateWebRtcEndpoint True True,
      CreateRecorderEndpoint ''file:///tmp/recording_s1.webm'' (Some WEBM),
      Connect 1 2 None, ProcessOffer 1 ''offer'', GatherCandidates 1,
      SetMinVideoSendBandwidth 1 1000, SetMaxVideoSendBandwidth 1 4000],
     logged = []\<rparr>,
  \<lparr>options = demo_options,
     session_pipeline =
       \<lparr>pipeline = Some 0, elements = [(''webrtc'', 1), (''recorder'', 2)],
          isReleased = False\<rparr>,
     webrtcHandler = \<lparr>webRtcEndpoint = Some 1, pendingCandidates = []\<rparr>,
     endpointManager =
       Some
        \<lparr>em_webRtcEndpoint = Some 1, em_recorderEndpoint = Some 2,
           em_recordingMode = Some AUDIO_VIDEO, isRecording = False,
           em_blankScreenElement = None\<rparr>,
     state = READY, startTime = 0, stopTime = 0, pauseStartTime = 0,
     totalPausedTime = 0, blankScreenElement = None, pauseType = BOTH,
     isAudioPaused = False, isVideoPaused = False,
     emitted = [StateChange READY]\<rparr>)"
  unfolding demo_ready_def by (simp add: eval_defs)

lemma demo_recording_eq:
  "RecordingSession_start no_faults 1000 demo_ready =
    ((\<lparr>kms =
      [CreateMediaPipeline, CreateWebRtcEndpoint True True,
       CreateRecorderEndpoint ''file:///tmp/recording_s1.webm'' (Some WEBM),
       Connect 1 2 None, ProcessOffer 1 ''offer'', GatherCandidates 1,
       SetMinVideoSendBandwidth 1 1000, SetMaxVideoSendBandwidth 1 4000,
       Record 2],
      logged = []\<rparr>,
   \<lparr>options = demo_options,
      session_pipeline =
        \<lparr>pipeline = Some 0, elements = [(''webrtc'', 1), (''recorder'', 2)],
           isReleased = False\<rparr>,
      webrtcHandler = \<lparr>webRtcEndpoint = Some 1, pendingCandidates = []\<rparr>,
      endpointManager =
        Some
         \<lparr>em_webRtcEndpoint = Some 1, em_recorderEndpoint = Some 2,
            em_recordingMode = Some AUDIO_VIDEO, isRecording = True,
            em_blankScreenElement = None\<rparr>,
      state = RECORDING, startTime = 1000, stopTime = 0, pauseStartTime = 0,
      totalPausedTime = 0, blankScreenElement = None, pauseType = BOTH,
      isAudioPaused = False, isVideoPaused = False,
      emitted =
        [StateChange READY, StateChange RECORDING, RecordingStarted 1000]\<rparr>),
  Inr ())"
  unfolding demo_ready_eq
  by (simp add: RecordingSession_start_def hasEndpoint_def startRecording_def request_def
      no_faults_def setState_def emit_def)

lemma demo_recording_val:
  "demo_recording =
    (\<lparr>kms =
      [CreateMediaPipeline, CreateWebRtcEndpoint True True,
       CreateRecorderEndpoint ''file:///tmp/recording_s1.webm'' (Some WEBM),
       Connect 1 2 None, ProcessOffer 1 ''offer'', GatherCandidates 1,
       SetMinVideoSendBandwidth 1 1000, SetMaxVideoSendBandwidth 1 4000,
       Record 2],
      logged = []\<rparr>,
   \<lparr>options = demo_options,
      session_pipeline =
        \<lparr>pipeline = Some 0, elements = [(''webrtc'', 1), (''recorder'', 2)],
           isReleased = False\<rparr>,
      webrtcHandler = \<lparr>webRtcEndpoint = Some 1, pendingCandidates = []\<rparr>,
      endpointManager =
        Some
         \<lparr>em_webRtcEndpoint = Some 1, em_recorderEndpoint = Some 2,
            em_recordingMode = Some AUDIO_VIDEO, isRecording = True,
            em_blankScreenElement = None\<rparr>,
      state = RECORDING, startTime = 1000, stopTime = 0, pauseStartTime = 0,
      totalPausedTime = 0, blankScreenElement = None, pauseType = BOTH,
      isAudioPaused = False, isVideoPaused = False,
      emitted =
        [StateChange READY, StateChange RECORDING, RecordingStarted 1000]\<rparr>)"
  by (simp add: demo_recording_def demo_recording_eq)

lemmas session_eval =
  RecordingSession_stop_def RecordingSession_pause_def RecordingSession_resume_def
  stopRecording_def request_def no_faults_def setState_def emit_def
  createRecordingResult_def round_seconds_def demo_options_def Let_def


text \<open>
  With blank-screen substitution disabled, \<^verbatim>\<open>resume\<close> adds \<open>now - pauseStartTime\<close> to the
  paused total at every call and leaves \<open>pauseStartTime\<close> where it was: after
  \<^verbatim>\<open>pause(both)\<close> at 2000, \<^verbatim>\<open>resume(audio)\<close> at 12000 and \<^verbatim>\<open>resume(video)\<close> at 22000 the
  paused total is 30000 ms for a pause of 20000 ms, and a stop at 23000 reports a
  negative duration.
\<close>

lemma partial_resume_example:
  "snd (RecordingSession_stop no_faults 23000
          (run_calls no_faults
             [PauseCall (Some BOTH) 2000, ResumeCall (Some AUDIO_ONLY_PAUSE) 12000,
              ResumeCall (Some VIDEO_ONLY_PAUSE) 22000] demo_recording)) =
       Inr \<lparr>path = ''/tmp/recording_s1.webm'', duration = - 8,
            result_mediaProfile = Some WEBM, result_sessionId = ''s1'',
            timestamp_start = 1000, timestamp_end = 23000\<rparr>"
  unfolding demo_recording_val
  by (simp add: session_eval)



text \<open>
  Claim C9. \<^verbatim>\<open>processOffer\<close> and \<^verbatim>\<open>start\<close> outside \<open>READY\<close>, \<^verbatim>\<open>pause\<close> outside
  \<open>RECORDING\<close> and \<^verbatim>\<open>resume\<close> outside \<open>PAUSED\<close> throw a session error with code
  \<^verbatim>\<open>SESSION_INVALID_STATE\<close> and leave the session and the media server exactly as they
  were: no field of the session changes (state, timestamps, paused total, muted flags)
  and no request is issued.
\<close>

theorem invalid_state_calls_rejected:
  "(state s \<noteq> READY \<longrightarrow>
      RecordingSession_processOffer rj uri ans offer (w, s)
        = ((w, s), Inl (SessionError SESSION_INVALID_STATE)))
   \<and> (state s \<noteq> READY \<longrightarrow>
      RecordingSession_start rj now (w, s) = ((w, s), Inl (SessionError SESSION_INVALID_STATE)))
   \<and> (state s \<noteq> RECORDING \<longrightarrow>
      RecordingSession_pause rj k now (w, s) = ((w, s), Inl (SessionError SESSION_INVALID_STATE)))
   \<and> (state s \<noteq> PAUSED \<longrightarrow>
      RecordingSession_resume rj k now (w, s) = ((w, s), Inl (SessionError SESSION_INVALID_STATE)))"
  by (simp add: RecordingSession_processOffer_def RecordingSession_start_def
      RecordingSession_pause_def RecordingSession_resume_def)

theorem invalid_state_calls_rejected_witness:
  "RecordingSession_processOffer no_faults file_uri ''answer'' ''offer'' demo_recording
        = (demo_recording, Inl (SessionError SESSION_INVALID_STATE))
   \<and> RecordingSession_start no_faults 5000 demo_recording
        = (demo_recording, Inl (SessionError SESSION_INVALID_STATE))
   \<and> RecordingSession_pause no_faults (Some BOTH) 5000 demo_ready
        = (demo_ready, Inl (SessionError SESSION_INVALID_STATE))
   \<and> RecordingSession_resume no_faults None 5000 demo_recording
        = (demo_recording, Inl (SessionError SESSION_INVALID_STATE))"
proof -
  have a: "state (snd demo_recording) \<noteq> READY" "state (snd demo_recording) \<noteq> PAUSED"
    by (simp_all add: demo_recording_val)
  have b: "state (snd demo_ready) \<noteq> RECORDING"
    by (simp add: demo_ready_eq)
  from invalid_state_calls_rejected[of "snd demo_recording" no_faults file_uri "''answer''"
      "''offer''" "fst demo_recording" 5000 None]
    invalid_state_calls_rejected[of "snd demo_ready" no_faults file_uri "''answer''"
      "''offer''" "fst demo_ready" 5000 "Some BOTH"] a b
  show ?thesis by simp
qed

text \<open>
  Claim C5. From \<open>RECORDING\<close>, \<^verbatim>\<open>pause(both)\<close> succeeds and leaves the session \<open>PAUSED\<close>
  with audio and video muted; from there \<^verbatim>\<open>resume(both)\<close> clears both flags and returns
  the session to \<open>RECORDING\<close>, while \<^verbatim>\<open>resume(video)\<close> clears the video flag only, leaves
  audio muted and the state \<open>PAUSED\<close>. In general a \<^verbatim>\<open>resume\<close> in \<open>PAUSED\<close> succeeds, and
  the state after it is \<open>RECORDING\<close> exactly when neither flag is set afterwards.
\<close>

theorem pause_resume_muting:
  "(state s = RECORDING \<longrightarrow>
      (let p = RecordingSession_pause rj (Some BOTH) t1 (w, s);
           both = RecordingSession_resume rj (Some BOTH) t2 (fst p);
           video = RecordingSession_resume rj (Some VIDEO_ONLY_PAUSE) t2 (fst p)
       in snd p = Inr () \<and> state (snd (fst p)) = PAUSED
          \<and> isAudioPaused (snd (fst p)) \<and> isVideoPaused (snd (fst p))
          \<and> snd both = Inr () \<and> state (snd (fst both)) = RECORDING
          \<and> \<not> isAudioPaused (snd (fst both)) \<and> \<not> isVideoPaused (snd (fst both))
          \<and> snd video = Inr () \<and> state (snd (fst video)) = PAUSED
          \<and> isAudioPaused (snd (fst video)) \<and> \<not> isVideoPaused (snd (fst video))))
   \<and> (state s = PAUSED \<longrightarrow>
      (let r = RecordingSession_resume rj k t (w, s)
       in snd r = Inr ()
          \<and> (state (snd (fst r)) = RECORDING
               \<longleftrightarrow> \<not> isAudioPaused (snd (fst r)) \<and> \<not> isVideoPaused (snd (fst r)))))"
proof (intro conjI impI)
  assume rec: "state s = RECORDING"
  from pause_accepted[OF rec, of rj "Some BOTH" t1 w] obtain w1 s1 where
    p: "RecordingSession_pause rj (Some BOTH) t1 (w, s) = ((w1, s1), Inr ())"
    and s1: "state s1 = PAUSED" "isAudioPaused s1" "isVideoPaused s1"
    by (auto simp: pause_kind_def)
  from resume_accepted[OF s1(1), of rj "Some BOTH" t2 w1] obtain w2 s2 where
    b: "RecordingSession_resume rj (Some BOTH) t2 (w1, s1) = ((w2, s2), Inr ())"
    and s2: "state s2 = RECORDING" "\<not> isAudioPaused s2" "\<not> isVideoPaused s2"
    by (auto simp: resume_kind_def resumed_state_def)
  from resume_accepted[OF s1(1), of rj "Some VIDEO_ONLY_PAUSE" t2 w1] s1 obtain w3 s3 where
    v: "RecordingSession_resume rj (Some VIDEO_ONLY_PAUSE) t2 (w1, s1) = ((w3, s3), Inr ())"
    and s3: "state s3 = PAUSED" "isAudioPaused s3" "\<not> isVideoPaused s3"
    by (auto simp: resume_kind_def resumed_state_def)
  show "let p = RecordingSession_pause rj (Some BOTH) t1 (w, s);
           both = RecordingSession_resume rj (Some BOTH) t2 (fst p);
           video = RecordingSession_resume rj (Some VIDEO_ONLY_PAUSE) t2 (fst p)
       in snd p = Inr () \<and> state (snd (fst p)) = PAUSED
          \<and> isAudioPaused (snd (fst p)) \<and> isVideoPaused (snd (fst p))
          \<and> snd both = Inr () \<and> state (snd (fst both)) = RECORDING
          \<and> \<not> isAudioPaused (snd (fst both)) \<and> \<not> isVideoPaused (snd (fst both))
          \<and> snd video = Inr () \<and> state (snd (fst video)) = PAUSED
          \<and> isAudioPaused (snd (fst video)) \<and> \<not> isVideoPaused (snd (fst video))"
    by (simp add: Let_def p b v s1 s2 s3)
next
  assume pa: "state s = PAUSED"
  from resume_accepted[OF pa, of rj k t w] obtain w2 s2 where
    r: "RecordingSession_resume rj k t (w, s) = ((w2, s2), Inr ())"
    and s2: "state s2 = RECORDING \<longleftrightarrow> \<not> isAudioPaused s2 \<and> \<not> isVideoPaused s2"
    by (auto simp: resumed_state_def)
  show "let r = RecordingSession_resume rj k t (w, s)
       in snd r = Inr ()
          \<and> (state (snd (fst r)) = RECORDING
               \<longleftrightarrow> \<not> isAudioPaused (snd (fst r)) \<and> \<not> isVideoPaused (snd (fst r)))"
    using s2 by (simp add: Let_def r)
qed

theorem pause_resume_muting_witness:
  "state (snd demo_recording) = RECORDING
   \<and> state (snd (fst (RecordingSession_resume no_faults (Some BOTH) 9000
        (fst (RecordingSession_pause no_faults (Some BOTH) 5000 demo_recording))))) = RECORDING
   \<and> state (snd (fst (RecordingSession_resume no_faults (Some VIDEO_ONLY_PAUSE) 9000
        (fst (RecordingSession_pause no_faults (Some BOTH) 5000 demo_recording))))) = PAUSED
   \<and> isAudioPaused (snd (fst (RecordingSession_resume no_faults (Some VIDEO_ONLY_PAUSE) 9000
        (fst (RecordingSession_pause no_faults (Some BOTH) 5000 demo_recording)))))
   \<and> state (snd (fst (RecordingSession_pause no_faults (Some BOTH) 5000 demo_recording))) = PAUSED
   \<and> snd (RecordingSession_resume no_faults (Some AUDIO_ONLY_PAUSE) 9000
        (fst (RecordingSession_pause no_faults (Some BOTH) 5000 demo_recording))) = Inr ()"
proof -
  have a: "state (snd demo_recording) = RECORDING"
    by (simp add: demo_recording_val)
  obtain wp sp where p: "fst (RecordingSession_pause no_faults (Some BOTH) 5000 demo_recording) = (wp, sp)"
    by (metis surj_pair)
  from pause_resume_muting[where s = "snd demo_recording" and rj = no_faults and ?t1.0 = 5000
      and w = "fst demo_recording" and ?t2.0 = 9000, THEN conjunct1] a
  have first: "state sp = PAUSED"
    "state (snd (fst (RecordingSession_resume no_faults (Some BOTH) 9000 (wp, sp)))) = RECORDING"
    "state (snd (fst (RecordingSession_resume no_faults (Some VIDEO_ONLY_PAUSE) 9000 (wp, sp)))) = PAUSED"
    "isAudioPaused (snd (fst (RecordingSession_resume no_faults (Some VIDEO_ONLY_PAUSE) 9000 (wp, sp))))"
    by (simp_all add: Let_def p)
  from pause_resume_muting[where s = sp and rj = no_faults and k = "Some AUDIO_ONLY_PAUSE"
      and t = 9000 and w = wp, THEN conjunct2] first(1)
  have "snd (RecordingSession_resume no_faults (Some AUDIO_ONLY_PAUSE) 9000 (wp, sp)) = Inr ()"
    by (simp add: Let_def)
  with a first show ?thesis by (simp add: p)
qed

section \<open>Properties of the endpoint wiring\<close>






lemma connectEndpoints_recordingMode:
  "connectEndpoints rj m w p (em\<lparr>em_recordingMode := x\<rparr>) = connectEndpoints rj m w p em"
  by (simp add: connectEndpoints_def)







section \<open>Properties of the candidate buffer\<close>

lemma rejected_positions_Cons:
  "length (rejected_positions rj e (c # cs) n) =
     (if rj n (AddIceCandidate e c) then 1 else 0) + length (rejected_positions rj e cs (Suc n))"
proof -
  have "[0..<length (c # cs)] = 0 # map Suc [0..<length cs]"
    by (simp add: upt_conv_Cons map_Suc_upt del: upt_Suc)
  then show ?thesis
    by (simp add: rejected_positions_def filter_map o_def del: upt_Suc)
qed

lemma forwardCandidates_effect:
  "kms (forwardCandidates rj e cs w) = kms w @ map (AddIceCandidate e) cs
   \<and> logged (forwardCandidates rj e cs w) =
       logged w @ replicate (length (rejected_positions rj e cs (length (kms w)))) flush_warning"
proof (induction cs arbitrary: w)
  case Nil
  then show ?case by (simp add: rejected_positions_def)
next
  case (Cons c cs)
  let ?w1 = "w\<lparr>kms := kms w @ [AddIceCandidate e c]\<rparr>"
  let ?w2 = "if rj (length (kms w)) (AddIceCandidate e c)
             then warn ''Error applying pending ICE candidate'' ?w1 else ?w1"
  have step: "forwardCandidates rj e (c # cs) w = forwardCandidates rj e cs ?w2"
    by (simp add: request_def)
  have k: "kms ?w2 = kms w @ [AddIceCandidate e c]"
    and l: "logged ?w2 = logged w @ (if rj (length (kms w)) (AddIceCandidate e c) then [flush_warning] else [])"
    by (simp_all add: warn_def flush_warning_def)
  from Cons.IH[of ?w2] show ?case
    unfolding step k l rejected_positions_Cons
    by (simp add: replicate_add[symmetric] del: replicate_add)
qed

lemma addIceCandidates_buffered:
  "webRtcEndpoint h = None \<Longrightarrow>
   addIceCandidates rj cs (w, h) = (w, h\<lparr>pendingCandidates := pendingCandidates h @ cs\<rparr>)"
proof (induction cs arbitrary: h)
  case Nil
  then show ?case by simp
next
  case (Cons c cs)
  from Cons.prems have "fst (WebRTCHandler_addIceCandidate rj c (w, h))
      = (w, h\<lparr>pendingCandidates := pendingCandidates h @ [c]\<rparr>)"
    by (simp add: WebRTCHandler_addIceCandidate_def)
  with Cons.IH[of "h\<lparr>pendingCandidates := pendingCandidates h @ [c]\<rparr>"] Cons.prems
  show ?case by simp
qed

lemma setEndpoint_flush:
  "setEndpoint rj e (w, h) =
     ((forwardCandidates rj e (pendingCandidates h) w,
       h\<lparr>webRtcEndpoint := Some e, pendingCandidates := []\<rparr>), Inr ())"
  by (cases "pendingCandidates h") (simp_all add: setEndpoint_def applyPendingCandidates_def)

text \<open>
  Claim C8. While no ingress element is attached, \<^verbatim>\<open>addIceCandidate\<close> only appends to the
  buffer and issues no request. Attaching an element flushes the buffer: the flush
  returns normally, it has forwarded every buffered candidate, in arrival order, whatever
  the server answered to the earlier ones, it has logged one warning per rejected
  candidate, and the buffer is empty. With an element attached, \<^verbatim>\<open>addIceCandidate\<close>
  forwards the candidate at once and buffers nothing.
\<close>

theorem ice_candidates_buffered_then_flushed:
  "(webRtcEndpoint h = None \<longrightarrow>
      addIceCandidates rj cs (w, h) = (w, h\<lparr>pendingCandidates := pendingCandidates h @ cs\<rparr>)
      \<and> (let flushed = setEndpoint rj e (addIceCandidates rj cs (w, h))
         in snd flushed = Inr ()
            \<and> kms (fst (fst flushed)) = kms w @ map (AddIceCandidate e) (pendingCandidates h @ cs)
            \<and> logged (fst (fst flushed)) =
                 logged w @ replicate
                   (length (rejected_positions rj e (pendingCandidates h @ cs) (length (kms w))))
                   flush_warning
            \<and> pendingCandidates (snd (fst flushed)) = []
            \<and> webRtcEndpoint (snd (fst flushed)) = Some e))
   \<and> (webRtcEndpoint h = Some e \<longrightarrow>
        kms (fst (fst (WebRTCHandler_addIceCandidate rj c (w, h)))) = kms w @ [AddIceCandidate e c]
        \<and> snd (fst (WebRTCHandler_addIceCandidate rj c (w, h))) = h)"
proof (intro conjI impI)
  assume n: "webRtcEndpoint h = None"
  show b: "addIceCandidates rj cs (w, h) = (w, h\<lparr>pendingCandidates := pendingCandidates h @ cs\<rparr>)"
    by (rule addIceCandidates_buffered[OF n])
  show "let flushed = setEndpoint rj e (addIceCandidates rj cs (w, h))
         in snd flushed = Inr ()
            \<and> kms (fst (fst flushed)) = kms w @ map (AddIceCandidate e) (pendingCandidates h @ cs)
            \<and> logged (fst (fst flushed)) =
                 logged w @ replicate
                   (length (rejected_positions rj e (pendingCandidates h @ cs) (length (kms w))))
                   flush_warning
            \<and> pendingCandidates (snd (fst flushed)) = []
            \<and> webRtcEndpoint (snd (fst flushed)) = Some e"
    unfolding b setEndpoint_flush Let_def
    using forwardCandidates_effect[of rj e "pendingCandidates h @ cs" w]
    by simp
next
  assume "webRtcEndpoint h = Some e"
  then show "kms (fst (fst (WebRTCHandler_addIceCandidate rj c (w, h)))) = kms w @ [AddIceCandidate e c]"
    and "snd (fst (WebRTCHandler_addIceCandidate rj c (w, h))) = h"
    by (simp_all add: WebRTCHandler_addIceCandidate_def request_def log_error_def)
qed

lemma demo_flush:
  "setEndpoint second_rejected 7
     (addIceCandidates second_rejected [cand ''a'', cand ''b'', cand ''c'']
        (\<lparr>kms = [], logged = []\<rparr>, new_WebRTCHandler))
   = ((\<lparr>kms = [AddIceCandidate 7 (cand ''a''), AddIceCandidate 7 (cand ''b''),
               AddIceCandidate 7 (cand ''c'')],
        logged = [(LOG_WARN, ''Error applying pending ICE candidate'')]\<rparr>,
       \<lparr>webRtcEndpoint = Some 7, pendingCandidates = []\<rparr>), Inr ())"
  by (simp add: setEndpoint_def applyPendingCandidates_def WebRTCHandler_addIceCandidate_def
      new_WebRTCHandler_def request_def warn_def second_rejected_def)

theorem ice_candidates_buffered_then_flushed_witness:
  "webRtcEndpoint new_WebRTCHandler = None
   \<and> setEndpoint second_rejected 7
     (addIceCandidates second_rejected [cand ''a'', cand ''b'', cand ''c'']
        (\<lparr>kms = [], logged = []\<rparr>, new_WebRTCHandler))
   = ((\<lparr>kms = [AddIceCandidate 7 (cand ''a''), AddIceCandidate 7 (cand ''b''),
               AddIceCandidate 7 (cand ''c'')],
        logged = [(LOG_WARN, ''Error applying pending ICE candidate'')]\<rparr>,
       \<lparr>webRtcEndpoint = Some 7, pendingCandidates = []\<rparr>), Inr ())
   \<and> kms (fst (fst (WebRTCHandler_addIceCandidate second_rejected (cand ''d'')
        (\<lparr>kms = [], logged = []\<rparr>, \<lparr>webRtcEndpoint = Some 7, pendingCandidates = []\<rparr>))))
      = [AddIceCandidate 7 (cand ''d'')]"
proof -
  have n: "webRtcEndpoint new_WebRTCHandler = None"
    by (simp add: new_WebRTCHandler_def)
  note T = ice_candidates_buffered_then_flushed[where rj = second_rejected and e = 7]
  from T[where h = new_WebRTCHandler and w = "\<lparr>kms = [], logged = []\<rparr>"
      and cs = "[cand ''a'', cand ''b'', cand ''c'']", THEN conjunct1, rule_format, OF n,
      THEN conjunct2, unfolded Let_def, THEN conjunct1]
  have f: "snd (setEndpoint second_rejected 7
     (addIceCandidates second_rejected [cand ''a'', cand ''b'', cand ''c'']
        (\<lparr>kms = [], logged = []\<rparr>, new_WebRTCHandler))) = Inr ()" .
  have s: "webRtcEndpoint \<lparr>webRtcEndpoint = Some 7, pendingCandidates = []\<rparr> = Some 7"
    by simp
  from T[where h = "\<lparr>webRtcEndpoint = Some 7, pendingCandidates = []\<rparr>"
      and w = "\<lparr>kms = [], logged = []\<rparr>" and c = "cand ''d''", THEN conjunct2, rule_format, OF s]
  have d: "kms (fst (fst (WebRTCHandler_addIceCandidate second_rejected (cand ''d'')
        (\<lparr>kms = [], logged = []\<rparr>, \<lparr>webRtcEndpoint = Some 7, pendingCandidates = []\<rparr>))))
      = [AddIceCandidate 7 (cand ''d'')]"
    by simp
  from n f demo_flush d show ?thesis by blast
qed

section \<open>Properties of the connection supervisor\<close>

lemma connected_connector_eq:
  "connected_connector =
     \<lparr>client = Some 0, connector_options = demo_connection_options, isConnecting = False,
      reconnectTimer = None, reconnectAttempts = 0, connector_emitted = [EV_connected]\<rparr>"
  by (simp add: connected_connector_def KurentoConnector_connect_def new_KurentoConnector_def
      connector_emit_def)

text \<open>
  Claim C2, as stated, fails twice. When the close is rejected, \<^verbatim>\<open>disconnect()\<close> forces the
  state and emits the event, and then throws a connection error with code
  \<^verbatim>\<open>DISCONNECT_FAILED\<close>: the failure is not swallowed. And on a connector that is not
  connected it returns at once and emits nothing.
\<close>

theorem disconnect_counterexample:
  "KurentoConnector_disconnect False connected_connector =
     (\<lparr>client = None, connector_options = demo_connection_options, isConnecting = False,
       reconnectTimer = None, reconnectAttempts = 0,
       connector_emitted = [EV_connected, EV_disconnected]\<rparr>,
      Inl (ConnectionError DISCONNECT_FAILED))
   \<and> KurentoConnector_disconnect True (new_KurentoConnector demo_connection_options) =
     (new_KurentoConnector demo_connection_options, Inr ())
   \<and> connector_emitted (new_KurentoConnector demo_connection_options) = []"
  unfolding connected_connector_eq
  by (simp add: KurentoConnector_disconnect_def new_KurentoConnector_def connector_emit_def)

text \<open>
  Claim C2, amended. After every \<^verbatim>\<open>disconnect()\<close> the connector has no client and no
  pending retry timer. If it was connected, exactly one \<^verbatim>\<open>disconnected\<close> event is
  emitted, also when the close is rejected, and the call then returns normally if the
  close resolved and throws \<^verbatim>\<open>ConnectionError(DISCONNECT_FAILED)\<close> if it was rejected. If
  it was not connected, nothing is emitted and the call returns normally.
\<close>

theorem disconnect_forces_state:
  "client (fst (KurentoConnector_disconnect close_ok k)) = None
   \<and> reconnectTimer (fst (KurentoConnector_disconnect close_ok k)) = None
   \<and> (client k \<noteq> None \<longrightarrow>
        connector_emitted (fst (KurentoConnector_disconnect close_ok k))
          = connector_emitted k @ [EV_disconnected]
        \<and> snd (KurentoConnector_disconnect close_ok k)
          = (if close_ok then Inr () else Inl (ConnectionError DISCONNECT_FAILED)))
   \<and> (client k = None \<longrightarrow>
        connector_emitted (fst (KurentoConnector_disconnect close_ok k)) = connector_emitted k
        \<and> snd (KurentoConnector_disconnect close_ok k) = Inr ())"
  by (cases "client k") (simp_all add: KurentoConnector_disconnect_def connector_emit_def)

theorem disconnect_forces_state_witness:
  "client connected_connector \<noteq> None
   \<and> connector_emitted (fst (KurentoConnector_disconnect False connected_connector))
        = [EV_connected, EV_disconnected]
   \<and> snd (KurentoConnector_disconnect False connected_connector)
        = Inl (ConnectionError DISCONNECT_FAILED)
   \<and> client (new_KurentoConnector demo_connection_options) = None
   \<and> snd (KurentoConnector_disconnect True (new_KurentoConnector demo_connection_options)) = Inr ()"
proof -
  have a: "client connected_connector \<noteq> None" "connector_emitted connected_connector = [EV_connected]"
    by (simp_all add: connected_connector_eq)
  have b: "client (new_KurentoConnector demo_connection_options) = None"
    by (simp add: new_KurentoConnector_def)
  from disconnect_forces_state[of False connected_connector]
    disconnect_forces_state[of True "new_KurentoConnector demo_connection_options"] a b
  show ?thesis by simp
qed













section \<open>Properties of the session coordinator\<close>

lemma fold_update_map_of:
  "map_of (fold (\<lambda>i t. AList.update i v t) ids ts) x
     = (if x \<in> set ids then Some v else map_of ts x)"
  by (induction ids arbitrary: ts) (auto simp: update_conv')

lemma fold_update_distinct:
  "distinct (map fst ts) \<Longrightarrow> distinct (map fst (fold (\<lambda>i t. AList.update i v t) ids ts))"
  by (induction ids arbitrary: ts) (auto simp: distinct_update)

lemma fold_update_keys:
  "fst ` set (fold (\<lambda>i t. AList.update i v t) ids ts) = fst ` set ts \<union> set ids"
  by (induction ids arbitrary: ts) (auto simp: dom_update)

lemma schedule_fields [simp]:
  "sessions (schedulePipelineRelease m) = sessions m"
  "config (schedulePipelineRelease m) = config m"
  "disconnectionTimestamp (schedulePipelineRelease m) = disconnectionTimestamp m"
  "manager_emitted (schedulePipelineRelease m) = manager_emitted m"
  "kurentoConnector (schedulePipelineRelease m) = kurentoConnector m"
  "isInitialized (schedulePipelineRelease m) = isInitialized m"
  by (simp_all add: schedulePipelineRelease_def)

lemma schedule_timers:
  "map_of (pipelineReleaseTimers (schedulePipelineRelease m)) x
     = (if x \<in> set (getActiveSessionIds m) then Some (maxReconnectionTimeMs (config m))
        else map_of (pipelineReleaseTimers m) x)"
  "distinct (map fst (pipelineReleaseTimers m))
     \<Longrightarrow> distinct (map fst (pipelineReleaseTimers (schedulePipelineRelease m)))"
  "fst ` set (pipelineReleaseTimers (schedulePipelineRelease m))
     = fst ` set (pipelineReleaseTimers m) \<union> set (getActiveSessionIds m)"
  by (simp_all add: schedulePipelineRelease_def fold_update_map_of fold_update_distinct
      fold_update_keys)

lemma schedule_ids [simp]:
  "getActiveSessionIds (schedulePipelineRelease m) = getActiveSessionIds m"
  "getActiveSessionIds (m\<lparr>disconnectionTimestamp := t\<rparr>) = getActiveSessionIds m"
  "getActiveSessionIds (m\<lparr>kurentoConnector := k\<rparr>) = getActiveSessionIds m"
  "getActiveSessionIds (m\<lparr>manager_emitted := ev\<rparr>) = getActiveSessionIds m"
  "getActiveSessionIds (m\<lparr>isInitialized := b\<rparr>) = getActiveSessionIds m"
  by (simp_all add: getActiveSessionIds_def)

lemma preserved_fields:
  "sessions (preserved now m) = sessions m"
  "config (preserved now m) = config m"
  "disconnectionTimestamp (preserved now m) = Some now"
  "kurentoConnector (preserved now m) = kurentoConnector m"
  "manager_emitted (preserved now m) = manager_emitted m @
     [M_PIPELINE_PRESERVED (length (sessions m)) (maxReconnectionTimeMs (config m))]"
  "getActiveSessionIds (preserved now m) = getActiveSessionIds m"
  by (simp_all add: preserved_def manager_emit_def getActiveSessionIds_def)

lemma preserved_timers:
  assumes "0 < maxReconnectionTimeMs (config m)"
  shows "map_of (pipelineReleaseTimers (preserved now m)) x
     = (if x \<in> set (getActiveSessionIds m) then Some (maxReconnectionTimeMs (config m))
        else map_of (pipelineReleaseTimers m) x)"
    "distinct (map fst (pipelineReleaseTimers m))
       \<Longrightarrow> distinct (map fst (pipelineReleaseTimers (preserved now m)))"
    "fst ` set (pipelineReleaseTimers (preserved now m))
       = fst ` set (pipelineReleaseTimers m) \<union> set (getActiveSessionIds m)"
  using assms schedule_timers[of "m\<lparr>disconnectionTimestamp := Some now\<rparr>"]
  by (simp_all add: preserved_def manager_emit_def)

lemma disconnect_preserving_unfold:
  assumes "sessions m \<noteq> []" "preservePipelinesOnDisconnect (config m)"
  shows "RecordingManager_disconnect rj close_ok False now now' (w, m) =
     (case kurentoConnector m of
        None \<Rightarrow> ((w, preserved now m), Inr ())
      | Some k \<Rightarrow>
          (case KurentoConnector_disconnect close_ok k of
             (k1, Inr u) \<Rightarrow>
               ((w, manager_emit M_DISCONNECTED
                      ((forward_connector_events now' k k1 (preserved now m))\<lparr>isInitialized := False\<rparr>)),
                Inr ())
           | (k1, Inl e) \<Rightarrow>
               ((log_error ''Error disconnecting from Kurento Media Server'' w,
                 forward_connector_events now' k k1 (preserved now m)),
                Inl (ConnectionError DISCONNECT_FAILED))))"
proof (cases "kurentoConnector m")
  case None
  with assms show ?thesis
    by (simp add: RecordingManager_disconnect_def preserved_def Let_def manager_emit_def)
next
  case (Some k)
  obtain k1 r where d: "KurentoConnector_disconnect close_ok k = (k1, r)"
    by (metis surj_pair)
  with assms Some show ?thesis
    by (cases r)
      (simp_all add: RecordingManager_disconnect_def preserved_def Let_def manager_emit_def)
qed

text \<open>What the handlers do with the events of a connector disconnect.\<close>

lemma forward_after_disconnect:
  assumes "sessions m \<noteq> []" "preservePipelinesOnDisconnect (config m)"
  shows "forward_connector_events now' k (fst (KurentoConnector_disconnect close_ok k)) m =
     (case client k of
        None \<Rightarrow> m\<lparr>kurentoConnector := Some (k\<lparr>reconnectTimer := None\<rparr>)\<rparr>
      | Some c \<Rightarrow>
          manager_emit M_DISCONNECTED
            (schedulePipelineRelease
               (m\<lparr>kurentoConnector :=
                     Some (connector_emit EV_disconnected (k\<lparr>reconnectTimer := None, client := None\<rparr>)),
                   disconnectionTimestamp := Some now'\<rparr>)))"
  using assms
  by (cases "client k")
    (simp_all add: forward_connector_events_def KurentoConnector_disconnect_def
      connector_emit_def Let_def)

lemma connector_disconnect_cases:
  "client k = None \<Longrightarrow>
     KurentoConnector_disconnect close_ok k = (k\<lparr>reconnectTimer := None\<rparr>, Inr ())"
  "client k = Some c \<Longrightarrow>
     KurentoConnector_disconnect close_ok k =
       (connector_emit EV_disconnected (k\<lparr>reconnectTimer := None, client := None\<rparr>),
        if close_ok then Inr () else Inl (ConnectionError DISCONNECT_FAILED))"
  by (simp_all add: KurentoConnector_disconnect_def)

lemma forward_nothing:
  "forward_connector_events now' k (k\<lparr>reconnectTimer := None\<rparr>) m
     = m\<lparr>kurentoConnector := Some (k\<lparr>reconnectTimer := None\<rparr>)\<rparr>"
  by (simp add: forward_connector_events_def)

lemma forward_disconnected:
  assumes "sessions m \<noteq> []" "preservePipelinesOnDisconnect (config m)"
  shows "forward_connector_events now' k
           (connector_emit EV_disconnected (k\<lparr>reconnectTimer := None, client := None\<rparr>)) m
     = manager_emit M_DISCONNECTED
         (schedulePipelineRelease
            (m\<lparr>kurentoConnector :=
                  Some (connector_emit EV_disconnected (k\<lparr>reconnectTimer := None, client := None\<rparr>)),
                disconnectionTimestamp := Some now'\<rparr>))"
  using assms by (simp add: forward_connector_events_def connector_emit_def)

lemma disconnect_preserving_result:
  assumes "sessions m \<noteq> []" "preservePipelinesOnDisconnect (config m)"
  shows "snd (fst (RecordingManager_disconnect rj close_ok False now now' (w, m)))
           = after_preserving_disconnect close_ok now now' m
     \<and> kms (fst (fst (RecordingManager_disconnect rj close_ok False now now' (w, m)))) = kms w"
proof (cases "kurentoConnector m")
  case None
  then show ?thesis
    unfolding disconnect_preserving_unfold[OF assms]
    by (simp add: after_preserving_disconnect_def)
next
  case (Some k)
  have p: "sessions (preserved now m) \<noteq> []" "preservePipelinesOnDisconnect (config (preserved now m))"
    using assms by (simp_all add: preserved_fields)
  show ?thesis
  proof (cases "client k")
    case None
    with Some show ?thesis
      unfolding disconnect_preserving_unfold[OF assms]
      by (simp add: after_preserving_disconnect_def connector_disconnect_cases(1)[OF None]
          forward_nothing)
  next
    case (Some c)
    with \<open>kurentoConnector m = Some k\<close> show ?thesis
      unfolding disconnect_preserving_unfold[OF assms]
      by (simp add: after_preserving_disconnect_def connector_disconnect_cases(2)[OF Some]
          forward_disconnected[OF p] Let_def log_error_def)
  qed
qed

lemma after_preserving_sessions:
  "sessions (after_preserving_disconnect close_ok now now' m) = sessions m"
  by (simp add: after_preserving_disconnect_def preserved_fields manager_emit_def Let_def
      split: option.splits)

lemma after_preserving_timestamp:
  "disconnectionTimestamp (after_preserving_disconnect close_ok now now' m) = Some now
   \<or> disconnectionTimestamp (after_preserving_disconnect close_ok now now' m) = Some now'"
  by (simp add: after_preserving_disconnect_def preserved_fields manager_emit_def Let_def
      split: option.splits)

lemma after_preserving_emitted:
  "take (Suc (length (manager_emitted m)))
     (manager_emitted (after_preserving_disconnect close_ok now now' m))
   = manager_emitted m @
       [M_PIPELINE_PRESERVED (length (sessions m)) (maxReconnectionTimeMs (config m))]"
  by (simp add: after_preserving_disconnect_def preserved_fields manager_emit_def Let_def
      split: option.splits)

lemma after_preserving_timers:
  assumes pos: "0 < maxReconnectionTimeMs (config m)"
  shows "map_of (pipelineReleaseTimers (after_preserving_disconnect close_ok now now' m)) x
     = (if x \<in> set (getActiveSessionIds m) then Some (maxReconnectionTimeMs (config m))
        else map_of (pipelineReleaseTimers m) x)
     \<and> fst ` set (pipelineReleaseTimers (after_preserving_disconnect close_ok now now' m))
       = fst ` set (pipelineReleaseTimers m) \<union> set (getActiveSessionIds m)
     \<and> (distinct (map fst (pipelineReleaseTimers m))
       \<longrightarrow> distinct (map fst (pipelineReleaseTimers (after_preserving_disconnect close_ok now now' m))))"
proof -
  let ?P = "preserved now m"
  define T where "T = pipelineReleaseTimers (after_preserving_disconnect close_ok now now' m)"
  have "T = pipelineReleaseTimers ?P
      \<or> (\<exists>k t. T = pipelineReleaseTimers (schedulePipelineRelease
               (?P\<lparr>kurentoConnector := k, disconnectionTimestamp := t\<rparr>)))"
    unfolding T_def
    by (auto simp add: after_preserving_disconnect_def manager_emit_def Let_def
        split: option.splits)
  then consider (a) "T = pipelineReleaseTimers ?P"
    | (b) k t where "T = pipelineReleaseTimers (schedulePipelineRelease
               (?P\<lparr>kurentoConnector := k, disconnectionTimestamp := t\<rparr>))"
    by blast
  then have "map_of T x = (if x \<in> set (getActiveSessionIds m) then Some (maxReconnectionTimeMs (config m))
        else map_of (pipelineReleaseTimers m) x)
     \<and> fst ` set T = fst ` set (pipelineReleaseTimers m) \<union> set (getActiveSessionIds m)
     \<and> (distinct (map fst (pipelineReleaseTimers m)) \<longrightarrow> distinct (map fst T))"
  proof cases
    case a
    then show ?thesis using preserved_timers[OF pos, of now] by simp
  next
    case b
    let ?Q = "?P\<lparr>kurentoConnector := k, disconnectionTimestamp := t\<rparr>"
    have q: "pipelineReleaseTimers ?Q = pipelineReleaseTimers ?P" "config ?Q = config m"
      "getActiveSessionIds ?Q = getActiveSessionIds m"
      by (simp_all add: preserved_fields)
    show ?thesis
      unfolding b using schedule_timers[of ?Q] preserved_timers[OF pos, of now]
      by (auto simp: q preserved_fields)
  qed
  then show ?thesis by (simp add: T_def)
qed

lemma timer_fired_releases:
  assumes "map_of (pipelineReleaseTimers m) sid \<noteq> None"
    and "map_of (sessions m) sid = Some s"
    and "snd (RecordingSession_release rj
               (warn ''Reconnection timed out for session, releasing pipeline'' w, s)) = Inr ()"
  shows "sessions (snd (pipelineReleaseTimer_fired rj sid (w, m))) = AList.delete sid (sessions m)
     \<and> pipelineReleaseTimers (snd (pipelineReleaseTimer_fired rj sid (w, m)))
         = AList.delete sid (pipelineReleaseTimers m)
     \<and> manager_emitted (snd (pipelineReleaseTimer_fired rj sid (w, m)))
         = manager_emitted m @
             [M_RECONNECTION_TIMED_OUT sid (maxReconnectionTimeMs (config m)),
              M_PIPELINE_RELEASED sid ''reconnection-timeout'']"
proof -
  obtain w1 s1 where r: "RecordingSession_release rj
      (warn ''Reconnection timed out for session, releasing pipeline'' w, s) = ((w1, s1), Inr ())"
    using assms(3) by (metis prod.collapse)
  from assms(1,2) r show ?thesis
    by (simp add: pipelineReleaseTimer_fired_def Let_def manager_emit_def)
qed

lemma connector_connect_cases:
  assumes "client k = None"
  shows "KurentoConnector_connect connect_ok random k =
     (if isConnecting k then (k, Inl (ConnectionError CONNECTION_IN_PROGRESS))
      else if connect_ok
      then (connector_emit EV_connected
              (k\<lparr>client := Some 0, isConnecting := False, reconnectAttempts := 0\<rparr>), Inr 0)
      else (if reconnect (connector_options k) = Some True \<and> may_retry (k\<lparr>isConnecting := False, client := None\<rparr>)
            then scheduleReconnect random (k\<lparr>isConnecting := False, client := None\<rparr>)
            else k\<lparr>isConnecting := False, client := None\<rparr>,
            Inl (ConnectionError CONNECTION_FAILED)))"
  using assms by (simp add: KurentoConnector_connect_def Let_def)

lemma forward_no_events:
  "connector_emitted after = connector_emitted before \<Longrightarrow>
   forward_connector_events now before after m = m\<lparr>kurentoConnector := Some after\<rparr>"
  by (simp add: forward_connector_events_def)

lemma forward_connected:
  "forward_connector_events now k
     (connector_emit EV_connected (k\<lparr>client := Some 0, isConnecting := False, reconnectAttempts := 0\<rparr>)) m
   = manager_emit M_CONNECTED
       (m\<lparr>kurentoConnector :=
            Some (connector_emit EV_connected
                    (k\<lparr>client := Some 0, isConnecting := False, reconnectAttempts := 0\<rparr>))\<rparr>)"
  by (simp add: forward_connector_events_def connector_emit_def)

lemma scheduleReconnect_fields:
  "client (scheduleReconnect random k) = client k"
  "connector_emitted (scheduleReconnect random k) = connector_emitted k"
  by (simp_all add: scheduleReconnect_def Let_def)

lemma manager_connect_when_disconnected:
  assumes k: "client k = None"
  shows "RecordingManager_isConnected (fst (RecordingManager_connect connect_ok random mkdir_ok t
            (m\<lparr>kurentoConnector := Some k\<rparr>)))
      \<Longrightarrow> disconnectionTimestamp m \<noteq> None
      \<Longrightarrow> pipelineReleaseTimers (fst (RecordingManager_connect connect_ok random mkdir_ok t
            (m\<lparr>kurentoConnector := Some k\<rparr>))) = []
        \<and> disconnectionTimestamp (fst (RecordingManager_connect connect_ok random mkdir_ok t
            (m\<lparr>kurentoConnector := Some k\<rparr>))) = None"
proof (cases "isConnecting k")
  case True
  with k show "RecordingManager_isConnected (fst (RecordingManager_connect connect_ok random mkdir_ok t
            (m\<lparr>kurentoConnector := Some k\<rparr>)))
      \<Longrightarrow> disconnectionTimestamp m \<noteq> None \<Longrightarrow> ?thesis"
    by (simp add: RecordingManager_connect_def Let_def manager_emit_def
        connector_connect_cases[OF k] forward_no_events RecordingManager_isConnected_def)
next
  case False
  show "RecordingManager_isConnected (fst (RecordingManager_connect connect_ok random mkdir_ok t
            (m\<lparr>kurentoConnector := Some k\<rparr>)))
      \<Longrightarrow> disconnectionTimestamp m \<noteq> None \<Longrightarrow> ?thesis"
  proof (cases connect_ok)
    case True
    with k False show "RecordingManager_isConnected (fst (RecordingManager_connect connect_ok random mkdir_ok t
            (m\<lparr>kurentoConnector := Some k\<rparr>)))
      \<Longrightarrow> disconnectionTimestamp m \<noteq> None \<Longrightarrow> ?thesis"
      by (cases mkdir_ok)
        (simp_all add: RecordingManager_connect_def Let_def manager_emit_def
          connector_connect_cases[OF k] forward_connected clearPipelineReleaseTimers_def)
  next
    case no: False
    let ?k1 = "k\<lparr>isConnecting := False, client := None\<rparr>"
    show "RecordingManager_isConnected (fst (RecordingManager_connect connect_ok random mkdir_ok t
            (m\<lparr>kurentoConnector := Some k\<rparr>)))
      \<Longrightarrow> disconnectionTimestamp m \<noteq> None \<Longrightarrow> ?thesis"
    proof (cases "reconnect (connector_options k) = Some True \<and> may_retry ?k1")
      case True
      with k False no show "RecordingManager_isConnected (fst (RecordingManager_connect connect_ok random mkdir_ok t
            (m\<lparr>kurentoConnector := Some k\<rparr>)))
      \<Longrightarrow> disconnectionTimestamp m \<noteq> None \<Longrightarrow> ?thesis"
        by (simp add: RecordingManager_connect_def Let_def manager_emit_def
            connector_connect_cases[OF k] forward_no_events scheduleReconnect_fields
            RecordingManager_isConnected_def)
    next
      case nr: False
      with k False no show "RecordingManager_isConnected (fst (RecordingManager_connect connect_ok random mkdir_ok t
            (m\<lparr>kurentoConnector := Some k\<rparr>)))
      \<Longrightarrow> disconnectionTimestamp m \<noteq> None \<Longrightarrow> ?thesis"
        by (simp add: RecordingManager_connect_def Let_def manager_emit_def
            connector_connect_cases[OF k] forward_no_events
            RecordingManager_isConnected_def)
    qed
  qed
qed

lemma manager_connect_creates_connector:
  assumes "kurentoConnector m = None"
  shows "RecordingManager_connect connect_ok random mkdir_ok t m =
     RecordingManager_connect connect_ok random mkdir_ok t
       (m\<lparr>kurentoConnector :=
            Some (new_KurentoConnector
                    \<lparr>kurentoUrl = cfg_kurentoUrl (config m), reconnect = Some True,
                     max_reconnectAttempts = Some (cfg_reconnectAttempts (config m)),
                     reconnectInterval = Some (cfg_reconnectInterval (config m)),
                     reconnectBaseDelay = None, reconnectMaxDelay = None\<rparr>)\<rparr>)"
proof -
  let ?k = "new_KurentoConnector
                    \<lparr>kurentoUrl = cfg_kurentoUrl (config m), reconnect = Some True,
                     max_reconnectAttempts = Some (cfg_reconnectAttempts (config m)),
                     reconnectInterval = Some (cfg_reconnectInterval (config m)),
                     reconnectBaseDelay = None, reconnectMaxDelay = None\<rparr>"
  have c: "client ?k = None" by (simp add: new_KurentoConnector_def)
  obtain k1 r where d: "KurentoConnector_connect connect_ok random ?k = (k1, r)"
    by (metis surj_pair)
  from assms c d show ?thesis
    by (cases r)
      (simp_all add: RecordingManager_connect_def Let_def manager_emit_def
        forward_connector_events_def)
qed

lemma connect_clears_timers:
  assumes "\<not> RecordingManager_isConnected m"
    and "RecordingManager_isConnected (fst (RecordingManager_connect connect_ok random mkdir_ok t m))"
    and "disconnectionTimestamp m \<noteq> None"
  shows "pipelineReleaseTimers (fst (RecordingManager_connect connect_ok random mkdir_ok t m)) = []
     \<and> disconnectionTimestamp (fst (RecordingManager_connect connect_ok random mkdir_ok t m)) = None"
proof (cases "kurentoConnector m")
  case None
  let ?k = "new_KurentoConnector
                    \<lparr>kurentoUrl = cfg_kurentoUrl (config m), reconnect = Some True,
                     max_reconnectAttempts = Some (cfg_reconnectAttempts (config m)),
                     reconnectInterval = Some (cfg_reconnectInterval (config m)),
                     reconnectBaseDelay = None, reconnectMaxDelay = None\<rparr>"
  have c: "client ?k = None" by (simp add: new_KurentoConnector_def)
  from manager_connect_when_disconnected[OF c, of connect_ok random mkdir_ok t m]
    assms(2,3)
  show ?thesis
    unfolding manager_connect_creates_connector[OF None] by blast
next
  case (Some k)
  with assms(1) have c: "client k = None"
    by (simp add: RecordingManager_isConnected_def)
  from Some have m: "m\<lparr>kurentoConnector := Some k\<rparr> = m" by simp
  from manager_connect_when_disconnected[OF c, of connect_ok random mkdir_ok t m]
    assms(2,3)
  show ?thesis
    unfolding m by blast
qed

text \<open>
  Claim C3, amended. (1) For every \<^verbatim>\<open>disconnect()\<close> that does not ask for the release of the
  pipelines, on a coordinator configured to preserve them and with at least one registered
  session, and for every outcome of closing the connection: the registry of sessions is
  unchanged and no request is sent to the media server, a disconnection timestamp is
  recorded (the clock reading of the method or of the \<^verbatim>\<open>disconnected\<close> handler), the first
  notification emitted is \<^verbatim>\<open>pipeline-preserved\<close> with the number of sessions and the
  window, and, when the window is positive, every registered session has a release timer
  with the window as its delay, the timers are those there before and those of the
  registered sessions, and there is still at most one timer per session if that was so
  before. (2) A release timer that fires for a registered session whose release succeeds
  removes that session and no other from the registry, removes its timer and no other, and
  emits \<^verbatim>\<open>reconnection-timed-out\<close> and \<^verbatim>\<open>pipeline-released\<close> for it. (3) A \<^verbatim>\<open>connect()\<close> of
  the coordinator that starts while it is not connected and a disconnection timestamp is
  recorded, and that ends connected, leaves no release timer and no disconnection
  timestamp.
\<close>

theorem preserve_on_disconnect:
  "(sessions m \<noteq> [] \<and> preservePipelinesOnDisconnect (config m) \<longrightarrow>
      (let r = RecordingManager_disconnect rj close_ok False now now' (w, m);
           m' = snd (fst r)
       in sessions m' = sessions m
          \<and> kms (fst (fst r)) = kms w
          \<and> (disconnectionTimestamp m' = Some now \<or> disconnectionTimestamp m' = Some now')
          \<and> take (Suc (length (manager_emitted m))) (manager_emitted m')
               = manager_emitted m @
                   [M_PIPELINE_PRESERVED (length (sessions m)) (maxReconnectionTimeMs (config m))]
          \<and> (0 < maxReconnectionTimeMs (config m) \<longrightarrow>
                (\<forall>x \<in> set (getActiveSessionIds m).
                    map_of (pipelineReleaseTimers m') x = Some (maxReconnectionTimeMs (config m)))
                \<and> fst ` set (pipelineReleaseTimers m')
                     = fst ` set (pipelineReleaseTimers m) \<union> set (getActiveSessionIds m)
                \<and> (distinct (map fst (pipelineReleaseTimers m))
                     \<longrightarrow> distinct (map fst (pipelineReleaseTimers m'))))))
   \<and> (map_of (pipelineReleaseTimers m) sid \<noteq> None \<and> map_of (sessions m) sid = Some s
        \<and> snd (RecordingSession_release rj
                 (warn ''Reconnection timed out for session, releasing pipeline'' w, s)) = Inr ()
        \<longrightarrow>
      (let m' = snd (pipelineReleaseTimer_fired rj sid (w, m))
       in sessions m' = AList.delete sid (sessions m)
          \<and> pipelineReleaseTimers m' = AList.delete sid (pipelineReleaseTimers m)
          \<and> manager_emitted m' = manager_emitted m @
               [M_RECONNECTION_TIMED_OUT sid (maxReconnectionTimeMs (config m)),
                M_PIPELINE_RELEASED sid ''reconnection-timeout'']))
   \<and> (\<not> RecordingManager_isConnected m
        \<and> RecordingManager_isConnected (fst (RecordingManager_connect connect_ok random mkdir_ok t m))
        \<and> disconnectionTimestamp m \<noteq> None \<longrightarrow>
      pipelineReleaseTimers (fst (RecordingManager_connect connect_ok random mkdir_ok t m)) = []
      \<and> disconnectionTimestamp (fst (RecordingManager_connect connect_ok random mkdir_ok t m)) = None)"
proof (intro conjI impI)
  assume a: "sessions m \<noteq> [] \<and> preservePipelinesOnDisconnect (config m)"
  then have a1: "sessions m \<noteq> []" and a2: "preservePipelinesOnDisconnect (config m)"
    by simp_all
  note R = disconnect_preserving_result[OF a1 a2, of rj close_ok now now' w]
  have t: "0 < maxReconnectionTimeMs (config m) \<longrightarrow>
      (\<forall>x \<in> set (getActiveSessionIds m).
          map_of (pipelineReleaseTimers (after_preserving_disconnect close_ok now now' m)) x
            = Some (maxReconnectionTimeMs (config m)))
      \<and> fst ` set (pipelineReleaseTimers (after_preserving_disconnect close_ok now now' m))
           = fst ` set (pipelineReleaseTimers m) \<union> set (getActiveSessionIds m)
      \<and> (distinct (map fst (pipelineReleaseTimers m))
           \<longrightarrow> distinct (map fst (pipelineReleaseTimers (after_preserving_disconnect close_ok now now' m))))"
    using after_preserving_timers[of m close_ok now now'] by simp
  show "let r = RecordingManager_disconnect rj close_ok False now now' (w, m);
           m' = snd (fst r)
       in sessions m' = sessions m
          \<and> kms (fst (fst r)) = kms w
          \<and> (disconnectionTimestamp m' = Some now \<or> disconnectionTimestamp m' = Some now')
          \<and> take (Suc (length (manager_emitted m))) (manager_emitted m')
               = manager_emitted m @
                   [M_PIPELINE_PRESERVED (length (sessions m)) (maxReconnectionTimeMs (config m))]
          \<and> (0 < maxReconnectionTimeMs (config m) \<longrightarrow>
                (\<forall>x \<in> set (getActiveSessionIds m).
                    map_of (pipelineReleaseTimers m') x = Some (maxReconnectionTimeMs (config m)))
                \<and> fst ` set (pipelineReleaseTimers m')
                     = fst ` set (pipelineReleaseTimers m) \<union> set (getActiveSessionIds m)
                \<and> (distinct (map fst (pipelineReleaseTimers m))
                     \<longrightarrow> distinct (map fst (pipelineReleaseTimers m'))))"
    unfolding Let_def R[THEN conjunct1] R[THEN conjunct2]
    using after_preserving_sessions[of close_ok now now' m]
      after_preserving_timestamp[of close_ok now now' m]
      after_preserving_emitted[of m close_ok now now'] t
    by blast
next
  assume "map_of (pipelineReleaseTimers m) sid \<noteq> None \<and> map_of (sessions m) sid = Some s
        \<and> snd (RecordingSession_release rj
                 (warn ''Reconnection timed out for session, releasing pipeline'' w, s)) = Inr ()"
  then show "let m' = snd (pipelineReleaseTimer_fired rj sid (w, m))
       in sessions m' = AList.delete sid (sessions m)
          \<and> pipelineReleaseTimers m' = AList.delete sid (pipelineReleaseTimers m)
          \<and> manager_emitted m' = manager_emitted m @
               [M_RECONNECTION_TIMED_OUT sid (maxReconnectionTimeMs (config m)),
                M_PIPELINE_RELEASED sid ''reconnection-timeout'']"
    unfolding Let_def using timer_fired_releases[of m sid s rj w] by blast
next
  assume c: "\<not> RecordingManager_isConnected m
        \<and> RecordingManager_isConnected (fst (RecordingManager_connect connect_ok random mkdir_ok t m))
        \<and> disconnectionTimestamp m \<noteq> None"
  from connect_clears_timers[of m connect_ok random mkdir_ok t] c
  show "pipelineReleaseTimers (fst (RecordingManager_connect connect_ok random mkdir_ok t m)) = []"
    and "disconnectionTimestamp (fst (RecordingManager_connect connect_ok random mkdir_ok t m)) = None"
    by blast+
qed

lemma demo_manager_fields:
  "sessions demo_manager = [(''s1'', snd demo_recording)]"
  "preservePipelinesOnDisconnect (config demo_manager)"
  "maxReconnectionTimeMs (config demo_manager) = 30000"
  "kurentoConnector demo_manager = Some connected_connector"
  "pipelineReleaseTimers demo_manager = []"
  "manager_emitted demo_manager = []"
  "disconnectionTimestamp demo_manager = None"
  by (simp_all add: demo_manager_def new_RecordingManager_def demo_config_def)

lemma demo_stop_5000:
  "RecordingSession_stop no_faults 5000 demo_recording =
     ((\<lparr>kms =
         [CreateMediaPipeline, CreateWebRtcEndpoint True True,
          CreateRecorderEndpoint ''file:///tmp/recording_s1.webm'' (Some WEBM),
          Connect 1 2 None, ProcessOffer 1 ''offer'', GatherCandidates 1,
          SetMinVideoSendBandwidth 1 1000, SetMaxVideoSendBandwidth 1 4000,
          Record 2, Stop 2],
        logged = []\<rparr>,
       (snd demo_recording)
         \<lparr>endpointManager :=
            Some \<lparr>em_webRtcEndpoint = Some 1, em_recorderEndpoint = Some 2,
                  em_recordingMode = Some AUDIO_VIDEO, isRecording = False,
                  em_blankScreenElement = None\<rparr>,
          state := STOPPED, stopTime := 5000,
          emitted :=
            [StateChange READY, StateChange RECORDING, RecordingStarted 1000,
             StateChange STOPPED,
             RecordingStopped
               \<lparr>path = ''/tmp/recording_s1.webm'', duration = 4,
                result_mediaProfile = Some WEBM, result_sessionId = ''s1'',
                timestamp_start = 1000, timestamp_end = 5000\<rparr>]\<rparr>),
      Inr \<lparr>path = ''/tmp/recording_s1.webm'', duration = 4,
           result_mediaProfile = Some WEBM, result_sessionId = ''s1'',
           timestamp_start = 1000, timestamp_end = 5000\<rparr>)"
proof -
  have "RecordingSession_stop no_faults 5000 (fst demo_recording, snd demo_recording) =
     ((\<lparr>kms =
         [CreateMediaPipeline, CreateWebRtcEndpoint True True,
          CreateRecorderEndpoint ''file:///tmp/recording_s1.webm'' (Some WEBM),
          Connect 1 2 None, ProcessOffer 1 ''offer'', GatherCandidates 1,
          SetMinVideoSendBandwidth 1 1000, SetMaxVideoSendBandwidth 1 4000,
          Record 2, Stop 2],
        logged = []\<rparr>,
       (snd demo_recording)
         \<lparr>endpointManager :=
            Some \<lparr>em_webRtcEndpoint = Some 1, em_recorderEndpoint = Some 2,
                  em_recordingMode = Some AUDIO_VIDEO, isRecording = False,
                  em_blankScreenElement = None\<rparr>,
          state := STOPPED, stopTime := 5000,
          emitted :=
            [StateChange READY, StateChange RECORDING, RecordingStarted 1000,
             StateChange STOPPED,
             RecordingStopped
               \<lparr>path = ''/tmp/recording_s1.webm'', duration = 4,
                result_mediaProfile = Some WEBM, result_sessionId = ''s1'',
                timestamp_start = 1000, timestamp_end = 5000\<rparr>]\<rparr>),
      Inr \<lparr>path = ''/tmp/recording_s1.webm'', duration = 4,
           result_mediaProfile = Some WEBM, result_sessionId = ''s1'',
           timestamp_start = 1000, timestamp_end = 5000\<rparr>)"
    unfolding demo_recording_val
    by (simp add: session_eval)
  then show ?thesis by simp
qed

text \<open>
  Claim C3, as stated, fails for a disconnect that asks for the release of the pipelines.
  The example coordinator is configured to preserve pipelines and has the active session
  \<open>s1\<close>; \<^verbatim>\<open>disconnect(true)\<close> stops the session (the recording ends with a duration of 4
  seconds and \<^verbatim>\<open>session-ended\<close> is emitted), removes it from the registry, records no
  disconnection timestamp, arms no timer and emits no \<^verbatim>\<open>pipeline-preserved\<close> notification.
\<close>

theorem forced_disconnect_counterexample:
  "preservePipelinesOnDisconnect (config demo_manager)
   \<and> map fst (sessions demo_manager) = [''s1'']
   \<and> sessions (snd (fst (RecordingManager_disconnect no_faults True True 5000 5001
                            (fst demo_recording, demo_manager)))) = []
   \<and> manager_emitted (snd (fst (RecordingManager_disconnect no_faults True True 5000 5001
                            (fst demo_recording, demo_manager)))) =
       [M_SESSION_ENDED ''s1''
          \<lparr>path = ''/tmp/recording_s1.webm'', duration = 4,
           result_mediaProfile = Some WEBM, result_sessionId = ''s1'',
           timestamp_start = 1000, timestamp_end = 5000\<rparr>,
        M_DISCONNECTED, M_DISCONNECTED]
   \<and> disconnectionTimestamp (snd (fst (RecordingManager_disconnect no_faults True True 5000 5001
                            (fst demo_recording, demo_manager)))) = None
   \<and> pipelineReleaseTimers (snd (fst (RecordingManager_disconnect no_faults True True 5000 5001
                            (fst demo_recording, demo_manager)))) = []"
  by (simp add: RecordingManager_disconnect_def demo_manager_fields stopAllSessions_def
      getActiveSessionIds_def clearPipelineReleaseTimers_def stopSession_def demo_stop_5000
      manager_emit_def connected_connector_eq KurentoConnector_disconnect_def
      connector_emit_def forward_connector_events_def Let_def)

lemma demo_preserved_fields:
  "sessions demo_preserved = [(''s1'', snd demo_recording)]"
  "pipelineReleaseTimers demo_preserved = [(''s1'', 30000)]"
  "disconnectionTimestamp demo_preserved = Some 5001"
  "maxReconnectionTimeMs (config demo_preserved) = 30000"
  "manager_emitted demo_preserved =
     [M_PIPELINE_PRESERVED 1 30000, M_DISCONNECTED, M_DISCONNECTED]"
  "kurentoConnector demo_preserved =
     Some \<lparr>client = None, connector_options = demo_connection_options, isConnecting = False,
           reconnectTimer = None, reconnectAttempts = 0,
           connector_emitted = [EV_connected, EV_disconnected]\<rparr>"
proof -
  have s: "sessions demo_manager \<noteq> []"
    by (simp add: demo_manager_fields)
  have e: "demo_preserved = after_preserving_disconnect True 5000 5001 demo_manager"
    unfolding demo_preserved_def
    using disconnect_preserving_result[OF s demo_manager_fields(2)] by simp
  show "sessions demo_preserved = [(''s1'', snd demo_recording)]"
    "pipelineReleaseTimers demo_preserved = [(''s1'', 30000)]"
    "disconnectionTimestamp demo_preserved = Some 5001"
    "maxReconnectionTimeMs (config demo_preserved) = 30000"
    "manager_emitted demo_preserved =
       [M_PIPELINE_PRESERVED 1 30000, M_DISCONNECTED, M_DISCONNECTED]"
    "kurentoConnector demo_preserved =
     Some \<lparr>client = None, connector_options = demo_connection_options, isConnecting = False,
           reconnectTimer = None, reconnectAttempts = 0,
           connector_emitted = [EV_connected, EV_disconnected]\<rparr>"
    unfolding e
    by (simp_all add: after_preserving_disconnect_def preserved_def demo_manager_fields
        connected_connector_eq manager_emit_def connector_emit_def schedulePipelineRelease_def
        getActiveSessionIds_def Let_def)
qed

lemma demo_release:
  "snd (RecordingSession_release no_faults
          (warn ''Reconnection timed out for session, releasing pipeline'' (fst demo_recording),
           snd demo_recording)) = Inr ()"
  unfolding demo_recording_val
  by (simp add: RecordingSession_release_def releaseEndpoints_def MediaPipeline_release_def
      request_def no_faults_def warn_def Let_def)

lemma demo_reconnected:
  "RecordingManager_isConnected (fst (RecordingManager_connect True 0 True 9000 demo_preserved))"
  by (simp add: RecordingManager_connect_def RecordingManager_isConnected_def
      demo_preserved_fields KurentoConnector_connect_def connector_emit_def
      forward_connector_events_def manager_emit_def clearPipelineReleaseTimers_def Let_def)

theorem preserve_on_disconnect_witness:
  "sessions demo_manager \<noteq> [] \<and> preservePipelinesOnDisconnect (config demo_manager)
   \<and> 0 < maxReconnectionTimeMs (config demo_manager)
   \<and> sessions demo_preserved = sessions demo_manager
   \<and> map_of (pipelineReleaseTimers demo_preserved) ''s1'' = Some 30000
   \<and> pipelineReleaseTimers demo_preserved = [(''s1'', 30000)]
   \<and> disconnectionTimestamp demo_preserved = Some 5001
   \<and> sessions (snd (pipelineReleaseTimer_fired no_faults ''s1''
                      (fst demo_recording, demo_preserved))) = []
   \<and> manager_emitted (snd (pipelineReleaseTimer_fired no_faults ''s1''
                      (fst demo_recording, demo_preserved))) =
        [M_PIPELINE_PRESERVED 1 30000, M_DISCONNECTED, M_DISCONNECTED,
         M_RECONNECTION_TIMED_OUT ''s1'' 30000,
         M_PIPELINE_RELEASED ''s1'' ''reconnection-timeout'']
   \<and> pipelineReleaseTimers (fst (RecordingManager_connect True 0 True 9000 demo_preserved)) = []
   \<and> disconnectionTimestamp (fst (RecordingManager_connect True 0 True 9000 demo_preserved)) = None"
proof -
  have a: "sessions demo_manager \<noteq> [] \<and> preservePipelinesOnDisconnect (config demo_manager)"
    by (simp add: demo_manager_fields)
  from preserve_on_disconnect[where m = demo_manager and rj = no_faults and close_ok = True
      and now = 5000 and now' = 5001 and w = "fst demo_recording",
      THEN conjunct1, rule_format, OF a]
  have pa: "sessions demo_preserved = sessions demo_manager"
    "map_of (pipelineReleaseTimers demo_preserved) ''s1'' = Some 30000"
    by (simp_all add: Let_def demo_preserved_def demo_manager_fields getActiveSessionIds_def)
  have a': "0 < maxReconnectionTimeMs (config demo_manager)"
    by (simp add: demo_manager_fields)
  have b: "map_of (pipelineReleaseTimers demo_preserved) ''s1'' \<noteq> None
      \<and> map_of (sessions demo_preserved) ''s1'' = Some (snd demo_recording)
      \<and> snd (RecordingSession_release no_faults
               (warn ''Reconnection timed out for session, releasing pipeline'' (fst demo_recording),
                snd demo_recording)) = Inr ()"
    by (simp add: demo_preserved_fields demo_release)
  from preserve_on_disconnect[where m = demo_preserved and rj = no_faults and sid = "''s1''"
      and s = "snd demo_recording" and w = "fst demo_recording",
      THEN conjunct2, THEN conjunct1, rule_format, OF b]
  have pb: "sessions (snd (pipelineReleaseTimer_fired no_faults ''s1''
                      (fst demo_recording, demo_preserved))) = []"
    "manager_emitted (snd (pipelineReleaseTimer_fired no_faults ''s1''
                      (fst demo_recording, demo_preserved))) =
        [M_PIPELINE_PRESERVED 1 30000, M_DISCONNECTED, M_DISCONNECTED,
         M_RECONNECTION_TIMED_OUT ''s1'' 30000,
         M_PIPELINE_RELEASED ''s1'' ''reconnection-timeout'']"
    by (simp_all add: Let_def demo_preserved_fields)
  have c: "\<not> RecordingManager_isConnected demo_preserved
      \<and> RecordingManager_isConnected (fst (RecordingManager_connect True 0 True 9000 demo_preserved))
      \<and> disconnectionTimestamp demo_preserved \<noteq> None"
    using demo_reconnected
    by (simp add: RecordingManager_isConnected_def demo_preserved_fields)
  from preserve_on_disconnect[where m = demo_preserved and connect_ok = True and random = 0
      and mkdir_ok = True and t = 9000,
      THEN conjunct2, THEN conjunct2, rule_format, OF c]
  have pc: "pipelineReleaseTimers (fst (RecordingManager_connect True 0 True 9000 demo_preserved)) = []"
    "disconnectionTimestamp (fst (RecordingManager_connect True 0 True 9000 demo_preserved)) = None"
    by simp_all
  from a a' pa pb pc demo_preserved_fields(2,3) show ?thesis
    by blast
qed

lemma demo_outage_fields:
  "sessions demo_outage = [(''s1'', snd demo_recording)]"
  "pipelineReleaseTimers demo_outage = [(''s1'', 30000)]"
  "disconnectionTimestamp demo_outage = Some 5001"
  "kurentoConnector demo_outage =
     Some \<lparr>client = None, connector_options = demo_connection_options, isConnecting = False,
           reconnectTimer = Some 500, reconnectAttempts = 1,
           connector_emitted = [EV_connected, EV_disconnected]\<rparr>"
  by (simp_all add: demo_outage_def RecordingManager_connect_def demo_preserved_fields
      KurentoConnector_connect_def connector_emit_def forward_connector_events_def
      manager_emit_def may_retry_def scheduleReconnect_def calculateReconnectDelay_def
      effective_baseDelay_def effective_maxDelay_def pow2_pred_def or_number_def
      demo_connection_options_def DEFAULT_reconnectBaseDelay_def DEFAULT_reconnectMaxDelay_def
      Let_def)

text \<open>
  The connector's own retry is not covered by (3): its \<^verbatim>\<open>connected\<close> handler only forwards
  the notification. In the example, after the preserving disconnect and a failed
  \<^verbatim>\<open>connect()\<close>, the retry succeeds at time 7000: the coordinator is connected again, and
  the release timer of \<open>s1\<close> and the disconnection timestamp are still there.
\<close>

lemma automatic_reconnection_example:
  "RecordingManager_isConnected (RecordingManager_retry_fired True 0 0 7000 demo_outage)
   \<and> pipelineReleaseTimers (RecordingManager_retry_fired True 0 0 7000 demo_outage)
        = [(''s1'', 30000)]
   \<and> disconnectionTimestamp (RecordingManager_retry_fired True 0 0 7000 demo_outage)
        = Some 5001"
  by (simp add: RecordingManager_retry_fired_def RecordingManager_isConnected_def
      demo_outage_fields reconnectTimer_fired_def KurentoConnector_connect_def
      connector_emit_def forward_connector_events_def manager_emit_def Let_def)

end
